theory Spec2Isabelle
  imports Complex_Main
begin

section \<open>Data model\<close>

text \<open>
  The three source files are \<^verbatim>\<open>utils/path.py\<close>, \<^verbatim>\<open>visual/plotdensitycuts.py\<close> and
  \<^verbatim>\<open>visual/plottemperaturecuts.py\<close>. The plotting functions call into
  \<^verbatim>\<open>pts.simulation\<close>, \<^verbatim>\<open>pts.utils\<close> and matplotlib; what those calls answer is taken
  as a parameter (the record \<open>env\<close> and the function fields of \<open>probe\<close> and
  \<open>simulation\<close>), so every theorem holds for whatever they answer.

  Pixel values, grid coordinates and figure sizes are real numbers and the arithmetic on
  them is exact: the rounding of the floating-point arrays, and an overflow of a result
  whose operands are finite, are outside the model. What the division at line 60 of
  \<^verbatim>\<open>plotdensitycuts.py\<close> does when \<^verbatim>\<open>10**decades\<close> is no finite non-zero float is in the
  model (\<open>divPow10\<close>). The frames loaded in one pass of a loop are taken to carry the
  same unit, so that comparing them compares their numbers.
\<close>

subsection \<open>Paths\<close>

text \<open>
  A \<^verbatim>\<open>pathlib.Path\<close>: whether it starts at the root, and its components.
\<close>

record path =
  is_absolute :: bool
  components :: "string list"

text \<open>\<^verbatim>\<open>Path.parent\<close>: the root and the empty relative path are their own parent.\<close>

definition parent :: "path \<Rightarrow> path" where
  "parent p = (if components p = [] then p else p\<lparr>components := butlast (components p)\<rparr>)"

text \<open>\<^verbatim>\<open>p / a / b\<close> for components without separators.\<close>

definition joinpath :: "path \<Rightarrow> string list \<Rightarrow> path" where
  "joinpath p xs = p\<lparr>components := components p @ xs\<rparr>"

text \<open>\<^verbatim>\<open>Path.name\<close>: the last component, empty when there is none.\<close>

definition name :: "path \<Rightarrow> string" where
  "name p = (case rev (components p) of [] \<Rightarrow> [] | n # _ \<Rightarrow> n)"

text \<open>\<^verbatim>\<open>str.rfind\<close> for one character; \<open>None\<close> is Python's \<open>-1\<close>.\<close>

fun rfind :: "char \<Rightarrow> string \<Rightarrow> nat option" where
  "rfind c [] = None"
| "rfind c (x # xs) =
     (case rfind c xs of
        Some i \<Rightarrow> Some (Suc i)
      | None \<Rightarrow> if x = c then Some 0 else None)"

text \<open>
  \<^verbatim>\<open>Path.stem\<close>: the name without its last suffix; a leading or a trailing dot starts no
  suffix (\<^verbatim>\<open>0 < i < len(name) - 1\<close>).
\<close>

definition stem :: "path \<Rightarrow> string" where
  "stem p =
     (let n = name p in
      case rfind (CHR ''.'') n of
        None \<Rightarrow> n
      | Some i \<Rightarrow> if 0 < i \<and> i + 1 < length n then take i n else n)"

text \<open>\<^verbatim>\<open>str.split(sep)\<close> for a one-character separator: never the empty list.\<close>

fun split :: "char \<Rightarrow> string \<Rightarrow> string list" where
  "split c [] = [[]]"
| "split c (x # xs) =
     (if x = c then [] # split c xs
      else (case split c xs of
              [] \<Rightarrow> [[x]]
            | y # ys \<Rightarrow> (x # y) # ys))"

text \<open>\<^verbatim>\<open>needle in hay\<close> on strings.\<close>

fun contains :: "string \<Rightarrow> string \<Rightarrow> bool" where
  "contains needle [] = (needle = [])"
| "contains needle (c # cs) =
     (take (length needle) (c # cs) = needle \<or> contains needle cs)"

subsection \<open>Exceptions\<close>

text \<open>
  \<open>IndexError\<close>, \<open>ValueError\<close> and \<open>OverflowError\<close> are raised by the indexing, the
  reductions and the division written in the two functions; \<open>LibraryError\<close> stands for
  whatever a called function of \<^verbatim>\<open>pts.simulation\<close>, \<^verbatim>\<open>pts.utils\<close> or matplotlib raises.
\<close>

datatype error = IndexError | ValueError | OverflowError | LibraryError string

definition bindE :: "error + 'a \<Rightarrow> ('a \<Rightarrow> error + 'b) \<Rightarrow> error + 'b" where
  "bindE r f = (case r of Inl e \<Rightarrow> Inl e | Inr v \<Rightarrow> f v)"

text \<open>A list comprehension over a call that may raise: the first exception ends it.\<close>

fun mapE :: "('a \<Rightarrow> error + 'b) \<Rightarrow> 'a list \<Rightarrow> error + 'b list" where
  "mapE f [] = Inr []"
| "mapE f (x # xs) =
     (case f x of
        Inl e \<Rightarrow> Inl e
      | Inr y \<Rightarrow> (case mapE f xs of Inl e \<Rightarrow> Inl e | Inr ys \<Rightarrow> Inr (y # ys)))"

text \<open>\<^verbatim>\<open>xs[0]\<close> and \<^verbatim>\<open>xs[-1]\<close>.\<close>

definition first_item :: "'a list \<Rightarrow> error + 'a" where
  "first_item xs = (case xs of [] \<Rightarrow> Inl IndexError | x # _ \<Rightarrow> Inr x)"

definition last_item :: "'a list \<Rightarrow> error + 'a" where
  "last_item xs = (case rev xs of [] \<Rightarrow> Inl IndexError | x # _ \<Rightarrow> Inr x)"

subsection \<open>Frames, grids and figures\<close>

text \<open>A loaded FITS frame (an array with a unit) and a coordinate grid.\<close>

record frame =
  fdata :: "real list list"
  funit :: string

record grid =
  coords :: "real list"
  gunit :: string

text \<open>
  A number as it is displayed: finite, or one of the values that a floating-point
  division by zero answers.
\<close>

datatype flt = Finite real | PosInf | NegInf | NaN

text \<open>
  A normalizer with its two limits, \<^verbatim>\<open>matplotlib.colors.LogNorm(vmin, vmax)\<close> or
  \<^verbatim>\<open>matplotlib.colors.Normalize(vmin, vmax)\<close>.
\<close>

datatype normalizer = LogNorm flt flt | Normalize flt flt

text \<open>
  One set of axes after \<^verbatim>\<open>imshow\<close>, \<^verbatim>\<open>set_xlim\<close>, \<^verbatim>\<open>set_ylim\<close> and the two labels; a label
  that was not set is empty.
\<close>

record panel =
  p_image :: "flt list list"
  p_norm :: normalizer
  p_extent :: "real \<times> real \<times> real \<times> real"
  p_xlim :: "real \<times> real"
  p_ylim :: "real \<times> real"
  p_xlabel :: string
  p_ylabel :: string

text \<open>
  A figure: its size, the panels drawn so far, and the label of its colour bar once it
  has one.
\<close>

record figure =
  fig_size :: "real \<times> real"
  panels :: "panel list"
  colorbar_label :: "string option"

subsection \<open>Simulation, probes and the called libraries\<close>

record probe =
  probe_type :: string
  probe_name :: string
  outFilePaths :: "string \<Rightarrow> path list"

record simulation =
  probes :: "probe list"
  outFilePath :: "string \<Rightarrow> path"

text \<open>
  The functions of \<^verbatim>\<open>pts.simulation\<close>, \<^verbatim>\<open>pts.utils\<close> and \<^verbatim>\<open>matplotlib.pyplot\<close> that the two
  plotting functions call. \<open>savePath\<close> takes the default path, the allowed suffixes and the
  keyword arguments \<open>outDirPath\<close>, \<open>outFileName\<close>, \<open>outFilePath\<close> (\<open>None\<close> for one that
  the caller leaves out); \<open>savefig\<close> answers the exception it raised, if any;
  \<open>nonsingular\<close> is \<^verbatim>\<open>matplotlib.transforms.nonsingular\<close>, by which \<^verbatim>\<open>fig.colorbar\<close> resets
  the limits of the normalizer of the image it is given. What
  \<open>outFilePaths\<close> answers for a pattern does not change during a call: the figures are
  written as \<^verbatim>\<open>.pdf\<close> or \<^verbatim>\<open>.png\<close>, the patterns match \<^verbatim>\<open>.fits\<close> files.
\<close>

record env =
  loadFits :: "path \<Rightarrow> error + frame"
  getFitsAxes :: "path \<Rightarrow> error + (grid \<times> grid)"
  latexForUnit :: "string \<Rightarrow> string"
  interactive :: "bool option \<Rightarrow> bool"
  savePath :: "path \<Rightarrow> string list \<Rightarrow> path option \<Rightarrow> string option \<Rightarrow> path option
                 \<Rightarrow> error + path"
  savefig :: "path \<Rightarrow> figure \<Rightarrow> error option"
  nonsingular :: "flt \<times> flt \<Rightarrow> flt \<times> flt"

text \<open>
  What an invocation leaves behind: the files written by \<^verbatim>\<open>plt.savefig\<close>, the figures
  still open, and the paths reported by \<^verbatim>\<open>logging.info("Created ...")\<close>.
\<close>

record world =
  saved :: "(path \<times> figure) list"
  open_figs :: "figure list"
  logged :: "path list"

text \<open>A call either returns or raises; both leave a world behind.\<close>

datatype outcome = Returned world | Raised error world

fun world_of :: "outcome \<Rightarrow> world" where
  "world_of (Returned w) = w"
| "world_of (Raised e w) = w"

definition leave_open :: "figure \<Rightarrow> world \<Rightarrow> world" where
  "leave_open fig w = w\<lparr>open_figs := open_figs w @ [fig]\<rparr>"

text \<open>A \<^verbatim>\<open>for\<close> loop without \<^verbatim>\<open>break\<close> or \<^verbatim>\<open>return\<close>: an exception in the body ends it.\<close>

fun forEach :: "('a \<Rightarrow> world \<Rightarrow> outcome) \<Rightarrow> 'a list \<Rightarrow> world \<Rightarrow> outcome" where
  "forEach body [] w = Returned w"
| "forEach body (x # xs) w =
     (case body x w of
        Returned w' \<Rightarrow> forEach body xs w'
      | Raised e w' \<Rightarrow> Raised e w')"

text \<open>
  The end of both loop bodies: in interactive mode the figure stays open; otherwise it is
  saved under \<open>savePath\<close>'s answer, closed and logged. An exception of \<open>savePath\<close> or
  \<open>savefig\<close> comes before \<^verbatim>\<open>plt.close()\<close>, so the figure stays open.
\<close>

definition finish :: "env \<Rightarrow> bool option \<Rightarrow> path \<Rightarrow> path option \<Rightarrow> string option \<Rightarrow> path option
                       \<Rightarrow> figure \<Rightarrow> world \<Rightarrow> outcome" where
  "finish E iflag defSavePath outDirPath outFileName outFilePath' fig w =
     (if \<not> interactive E iflag then
        (case savePath E defSavePath [''.pdf'', ''.png''] outDirPath outFileName outFilePath' of
           Inl e \<Rightarrow> Raised e (leave_open fig w)
         | Inr saveFilePath \<Rightarrow>
             (case savefig E saveFilePath fig of
                Some e \<Rightarrow> Raised e (leave_open fig w)
              | None \<Rightarrow> Returned (w\<lparr>saved := saved w @ [(saveFilePath, fig)],
                                     logged := logged w @ [saveFilePath]\<rparr>)))
      else Returned (leave_open fig w))"

section \<open>\<^verbatim>\<open>utils/path.py\<close>\<close>

text \<open>
  \<^verbatim>\<open>pts()\<close>; its argument is the path of the module file, which
  \<^verbatim>\<open>inspect.getfile(inspect.currentframe())\<close> answers.
\<close>

definition pts :: "path \<Rightarrow> path" where
  "pts moduleFile = parent (parent moduleFile)"

section \<open>Drawing shared by the two plotting functions\<close>

text \<open>
  \<^verbatim>\<open>fig.colorbar(im, ...)\<close> resets the limits of the normalizer of \<open>im\<close> in place and keeps
  its kind.
\<close>

fun colorbarNorm :: "env \<Rightarrow> normalizer \<Rightarrow> normalizer" where
  "colorbarNorm E (LogNorm lo hi) = (case nonsingular E (lo, hi) of (lo', hi') \<Rightarrow> LogNorm lo' hi')"
| "colorbarNorm E (Normalize lo hi) =
     (case nonsingular E (lo, hi) of (lo', hi') \<Rightarrow> Normalize lo' hi')"

text \<open>\<^verbatim>\<open>frame.max()\<close>: numpy raises \<open>ValueError\<close> on an array without elements.\<close>

definition frameMax :: "frame \<Rightarrow> error + real" where
  "frameMax f = (case concat (fdata f) of [] \<Rightarrow> Inl ValueError | v # vs \<Rightarrow> Inr (fold max vs v))"

text \<open>\<^verbatim>\<open>(xgrid[0], xgrid[-1], ygrid[0], ygrid[-1])\<close>.\<close>

definition extentOf :: "grid \<Rightarrow> grid \<Rightarrow> error + (real \<times> real \<times> real \<times> real)" where
  "extentOf xgrid ygrid =
     bindE (first_item (coords xgrid)) (\<lambda>x0.
     bindE (last_item (coords xgrid)) (\<lambda>x1.
     bindE (first_item (coords ygrid)) (\<lambda>y0.
     bindE (last_item (coords ygrid)) (\<lambda>y1.
       Inr (x0, x1, y0, y1)))))"

text \<open>\<^verbatim>\<open>cut[0] + latexForUnit(xgrid.unit)\<close> and \<^verbatim>\<open>cut[-1] + latexForUnit(ygrid.unit)\<close>.\<close>

definition axisLabels :: "env \<Rightarrow> string \<Rightarrow> grid \<Rightarrow> grid \<Rightarrow> error + (string \<times> string)" where
  "axisLabels E cut' xgrid ygrid =
     bindE (first_item cut') (\<lambda>c0.
     bindE (last_item cut') (\<lambda>c1.
       Inr (c0 # latexForUnit E (gunit xgrid), c1 # latexForUnit E (gunit ygrid))))"

text \<open>
  The axes after \<^verbatim>\<open>imshow(image.T, ..., extent=extent)\<close>, \<^verbatim>\<open>set_xlim\<close> and \<^verbatim>\<open>set_ylim\<close>, with
  the labels given.
\<close>

definition axesOf :: "flt list list \<Rightarrow> normalizer \<Rightarrow> real \<times> real \<times> real \<times> real \<Rightarrow> string \<Rightarrow> string
                        \<Rightarrow> panel" where
  "axesOf img normalizer ext xl yl =
     (case ext of (x0, x1, y0, y1) \<Rightarrow>
        \<lparr>p_image = transpose img, p_norm = normalizer, p_extent = (x0, x1, y0, y1),
         p_xlim = (x0, x1), p_ylim = (y0, y1), p_xlabel = xl, p_ylabel = yl\<rparr>)"

text \<open>A figure just opened by \<^verbatim>\<open>plt.subplots\<close>.\<close>

definition blank :: "real \<times> real \<Rightarrow> figure" where
  "blank figSize = \<lparr>fig_size = figSize, panels = [], colorbar_label = None\<rparr>"

section \<open>\<^verbatim>\<open>visual/plotdensitycuts.py\<close>\<close>

text \<open>
  Line 60, \<^verbatim>\<open>vmax / 10**decades\<close>. From \<open>decades = 309\<close> on the integer \<^verbatim>\<open>10**decades\<close> is
  too large to become a float and Python raises \<open>OverflowError\<close>; from \<open>decades = -324\<close>
  down the float \<^verbatim>\<open>10**decades\<close> is \<open>0.0\<close> and the division of the array element answers
  an infinity or NaN; in between the quotient is \<open>vmax / 10 powi decades\<close>.
\<close>

definition divPow10 :: "real \<Rightarrow> int \<Rightarrow> error + flt" where
  "divPow10 vmax decades =
     (if 309 \<le> decades then Inl OverflowError
      else if decades \<le> - 324
        then Inr (if 0 < vmax then PosInf else if vmax < 0 then NegInf else NaN)
      else Inr (Finite (vmax / power_int 10 decades)))"

text \<open>Lines 59-60: \<open>(vmin, vmax)\<close>.\<close>

definition densityRange :: "int \<Rightarrow> frame \<Rightarrow> frame \<Rightarrow> error + (flt \<times> real)" where
  "densityRange decades tFrame gFrame =
     bindE (frameMax tFrame) (\<lambda>tmax.
     bindE (frameMax gFrame) (\<lambda>gmax.
       let vmax = max tmax gmax in
       bindE (divPow10 vmax decades) (\<lambda>vmin.
         Inr (vmin, vmax))))"

text \<open>\<^verbatim>\<open>v < vmin\<close> on floats: nothing is below NaN or minus infinity.\<close>

fun below :: "real \<Rightarrow> flt \<Rightarrow> bool" where
  "below v (Finite m) = (v < m)"
| "below v PosInf = True"
| "below v NegInf = False"
| "below v NaN = False"

text \<open>Lines 61-62: \<^verbatim>\<open>frame[frame<vmin] = vmin\<close>, the numbers of the frame afterwards.\<close>

definition clip :: "flt \<Rightarrow> frame \<Rightarrow> flt list list" where
  "clip vmin f = map (map (\<lambda>v. if below v vmin then vmin else Finite v)) (fdata f)"

text \<open>Lines 68-71.\<close>

definition chooseNormalizer :: "flt \<Rightarrow> real \<Rightarrow> normalizer" where
  "chooseNormalizer vmin vmax =
     (if vmax > 0 then LogNorm vmin (Finite vmax) else Normalize vmin (Finite vmax))"

text \<open>
  Lines 65-88, after \<^verbatim>\<open>plt.subplots\<close>: the figure as far as it was drawn, and the exception
  that interrupted the drawing, if any. The two images share one normalizer object, whose
  limits the colour bar resets; the colour bar is labelled with the unit of the theoretical
  frame. The labels come last: when \<^verbatim>\<open>cut[0]\<close> raises, none is set.
\<close>

definition densityFigure :: "env \<Rightarrow> real \<times> real \<Rightarrow> string \<Rightarrow> flt list list \<Rightarrow> flt list list
                               \<Rightarrow> string \<Rightarrow> grid \<Rightarrow> grid \<Rightarrow> flt \<Rightarrow> real
                               \<Rightarrow> figure \<times> error option" where
  "densityFigure E figSize cut' tImage gImage tUnit xgrid ygrid vmin vmax =
     (let normalizer = chooseNormalizer vmin vmax in
      case extentOf xgrid ygrid of
        Inl e \<Rightarrow> (blank figSize, Some e)
      | Inr ext \<Rightarrow>
          (let shared = colorbarNorm E normalizer;
               bar = Some (''density'' @ latexForUnit E tUnit)
           in case axisLabels E cut' xgrid ygrid of
                Inl e \<Rightarrow>
                  (\<lparr>fig_size = figSize,
                    panels = [axesOf tImage shared ext [] [], axesOf gImage shared ext [] []],
                    colorbar_label = bar\<rparr>, Some e)
              | Inr (xl, yl) \<Rightarrow>
                  (\<lparr>fig_size = figSize,
                    panels = [axesOf tImage shared ext xl yl, axesOf gImage shared ext xl yl],
                    colorbar_label = bar\<rparr>, None)))"

text \<open>
  Lines 52-62: the numbers of the two frames clipped at \<open>vmin\<close>, the unit of the theoretical
  frame, the axes and the range. Nothing has been drawn yet.
\<close>

definition densityLoad :: "env \<Rightarrow> int \<Rightarrow> path \<Rightarrow> path
      \<Rightarrow> error + (flt list list \<times> flt list list \<times> string \<times> grid \<times> grid \<times> flt \<times> real)" where
  "densityLoad E decades tPath gPath =
     bindE (loadFits E tPath) (\<lambda>tFrame.
     bindE (loadFits E gPath) (\<lambda>gFrame.
     bindE (getFitsAxes E tPath) (\<lambda>(xgrid, ygrid).
     bindE (densityRange decades tFrame gFrame) (\<lambda>(vmin, vmax).
       Inr (clip vmin tFrame, clip vmin gFrame, funit tFrame, xgrid, ygrid, vmin, vmax)))))"

text \<open>
  Lines 49-96, the body of the innermost loop. An exception before \<^verbatim>\<open>plt.subplots\<close>
  leaves the world as it was; one raised while drawing leaves the figure behind, open and
  as far as it was drawn.
\<close>

definition densityCut :: "env \<Rightarrow> simulation \<Rightarrow> int \<Rightarrow> path option \<Rightarrow> real \<times> real \<Rightarrow> bool option
                            \<Rightarrow> probe \<Rightarrow> string \<Rightarrow> string \<Rightarrow> world \<Rightarrow> outcome" where
  "densityCut E simulation decades outDirPath figSize iflag probe medium cut' w =
     (let tPaths = outFilePaths probe (medium @ ''_t_'' @ cut' @ ''.fits'');
          gPaths = outFilePaths probe (medium @ ''_g_'' @ cut' @ ''.fits'')
      in if length tPaths = 1 \<and> length gPaths = 1 then
           (case densityLoad E decades (hd tPaths) (hd gPaths) of
              Inl e \<Rightarrow> Raised e w
            | Inr (tImage, gImage, tUnit, xgrid, ygrid, vmin, vmax) \<Rightarrow>
                (case densityFigure E figSize cut' tImage gImage tUnit xgrid ygrid vmin vmax of
                   (fig, Some e) \<Rightarrow> Raised e (leave_open fig w)
                 | (fig, None) \<Rightarrow>
                     finish E iflag
                       (outFilePath simulation
                          (probe_name probe @ ''_'' @ medium @ ''_'' @ cut' @ ''.pdf''))
                       outDirPath None None fig w))
         else Returned w)"

text \<open>Lines 40-41.\<close>

definition densityProbes :: "simulation \<Rightarrow> probe list" where
  "densityProbes simulation =
     filter (\<lambda>probe. probe_type probe \<in>
                set [''DefaultMediaDensityCutsProbe'', ''PlanarMediaDensityCutsProbe''])
       (probes simulation)"

text \<open>\<^verbatim>\<open>plotMediaDensityCuts(simulation, decades, outDirPath, figSize, interactive)\<close>.\<close>

definition plotMediaDensityCuts :: "env \<Rightarrow> simulation \<Rightarrow> int \<Rightarrow> path option \<Rightarrow> real \<times> real
                                      \<Rightarrow> bool option \<Rightarrow> world \<Rightarrow> outcome" where
  "plotMediaDensityCuts E simulation decades outDirPath figSize iflag =
     forEach (\<lambda>probe.
       forEach (\<lambda>medium.
         forEach (\<lambda>cut'.
           densityCut E simulation decades outDirPath figSize iflag probe medium cut')
           [''xy'', ''xz'', ''yz''])
         [''dust'', ''elec'', ''gas''])
       (densityProbes simulation)"

section \<open>\<^verbatim>\<open>visual/plottemperaturecuts.py\<close>\<close>

text \<open>Lines 38-39.\<close>

definition probetypes :: "string list" where
  "probetypes =
     [style @ medium @ ''TemperatureCutsProbe''.
        style \<leftarrow> [''Default'', ''Planar''], medium \<leftarrow> [''Dust'', ''Gas'', ''Electron'']]"

definition temperatureProbes :: "simulation \<Rightarrow> probe list" where
  "temperatureProbes simulation =
     filter (\<lambda>probe. probe_type probe \<in> set probetypes) (probes simulation)"

text \<open>Lines 45-47: the medium indicator, from the probe's type name.\<close>

definition mediumOf :: "string \<Rightarrow> string" where
  "mediumOf ptype =
     (let medium = ''dust'';
          medium = (if contains ''Gas'' ptype then ''gas'' else medium);
          medium = (if contains ''Electron'' ptype then ''elec'' else medium)
      in medium)"

text \<open>Line 55: \<^verbatim>\<open>path.stem.split("_")[-1]\<close>.\<close>

definition cutOf :: "path \<Rightarrow> error + string" where
  "cutOf p = last_item (split (CHR ''_'') (stem p))"

text \<open>Line 60: \<^verbatim>\<open>max([frame.max() for frame in frames])\<close>.\<close>

definition framesMax :: "frame list \<Rightarrow> error + real" where
  "framesMax frames =
     bindE (mapE frameMax frames) (\<lambda>ms.
       case ms of [] \<Rightarrow> Inl ValueError | m # ms' \<Rightarrow> Inr (fold max ms' m))"

text \<open>
  Lines 68-75, the drawing loop: the panels drawn, and the exception that ended the loop,
  if any. Each \<^verbatim>\<open>imshow(..., vmin=0, vmax=Tmax.value, ...)\<close> makes a linear normalizer of
  its own from 0 to \<open>Tmax\<close>. When \<^verbatim>\<open>xgrid[0]\<close> raises the axes are still empty; when
  \<^verbatim>\<open>cut[0]\<close> raises the image is drawn and no label is set.
\<close>

fun drawPanels :: "env \<Rightarrow> real \<Rightarrow> (string \<times> frame \<times> grid \<times> grid) list
                     \<Rightarrow> panel list \<times> error option" where
  "drawPanels E Tmax [] = ([], None)"
| "drawPanels E Tmax ((cut', fr, xgrid, ygrid) # rest) =
     (let img = map (map Finite) (fdata fr);
          normalizer = Normalize (Finite 0) (Finite Tmax)
      in case extentOf xgrid ygrid of
           Inl e \<Rightarrow> ([], Some e)
         | Inr ext \<Rightarrow>
             (case axisLabels E cut' xgrid ygrid of
                Inl e \<Rightarrow> ([axesOf img normalizer ext [] []], Some e)
              | Inr (xl, yl) \<Rightarrow>
                  (case drawPanels E Tmax rest of
                     (ps, r) \<Rightarrow> (axesOf img normalizer ext xl yl # ps, r))))"

text \<open>
  Lines 55-60: the cut names, the frames, the axes and \<open>Tmax\<close>, and the frame whose unit
  labels the colour bar: the last one of the drawing loop (there is one, since \<open>numcuts\<close>
  is at least 1).
\<close>

definition temperatureLoad :: "env \<Rightarrow> path list
      \<Rightarrow> error + (string list \<times> frame list \<times> (grid \<times> grid) list \<times> real \<times> frame)" where
  "temperatureLoad E paths =
     bindE (mapE cutOf paths) (\<lambda>cuts.
     bindE (mapE (loadFits E) paths) (\<lambda>frames.
     bindE (mapE (getFitsAxes E) paths) (\<lambda>grids.
     bindE (framesMax frames) (\<lambda>Tmax.
     bindE (last_item frames) (\<lambda>fr.
       Inr (cuts, frames, grids, Tmax, fr))))))"

text \<open>
  Line 78: the colour bar is made for \<open>im\<close>, the last image drawn, and resets the limits
  of that image's normalizer.
\<close>

definition withColorbar :: "env \<Rightarrow> panel list \<Rightarrow> panel list" where
  "withColorbar E ps =
     (case rev ps of
        [] \<Rightarrow> []
      | im # before \<Rightarrow> rev before @ [im\<lparr>p_norm := colorbarNorm E (p_norm im)\<rparr>])"

text \<open>
  Lines 64-79, after \<^verbatim>\<open>plt.subplots\<close>: the figure as far as it was drawn, and the
  exception that interrupted the drawing, if any.
\<close>

definition temperatureFigure :: "env \<Rightarrow> real \<times> real \<Rightarrow> string list \<Rightarrow> frame list
      \<Rightarrow> (grid \<times> grid) list \<Rightarrow> real \<Rightarrow> frame \<Rightarrow> figure \<times> error option" where
  "temperatureFigure E figSize cuts frames grids Tmax fr =
     (case drawPanels E Tmax (zip cuts (zip frames grids)) of
        (ps, Some e) \<Rightarrow> (\<lparr>fig_size = figSize, panels = ps, colorbar_label = None\<rparr>, Some e)
      | (ps, None) \<Rightarrow>
          (\<lparr>fig_size = figSize, panels = withColorbar E ps,
            colorbar_label = Some (''T'' @ latexForUnit E (funit fr))\<rparr>, None))"

text \<open>
  What one pass of the loop over the probes does: go on with the next probe (with the
  value \<open>figSize\<close> now has), return from the whole function, or raise.
\<close>

datatype flow = Next "(real \<times> real) option" world | Return world | Raise error world

text \<open>Lines 45-88, the body of the loop over the probes.\<close>

definition temperatureProbe :: "env \<Rightarrow> simulation \<Rightarrow> path option \<Rightarrow> string option \<Rightarrow> path option
                                  \<Rightarrow> (real \<times> real) option \<Rightarrow> bool option \<Rightarrow> probe \<Rightarrow> world
                                  \<Rightarrow> flow" where
  "temperatureProbe E simulation outDirPath outFileName outFilePath' figSize iflag probe w =
     (let medium = mediumOf (probe_type probe);
          paths = outFilePaths probe (medium @ ''_T_*.fits'');
          numcuts = length paths
      in if \<not> numcuts \<in> set [1, 2, 3] then Return w
         else
           (case temperatureLoad E paths of
              Inl e \<Rightarrow> Raise e w
            | Inr (cuts, frames, grids, Tmax, fr) \<Rightarrow>
                (let figSize' = (case figSize of None \<Rightarrow> (8 * real numcuts, 6) | Some s \<Rightarrow> s)
                 in case temperatureFigure E figSize' cuts frames grids Tmax fr of
                      (fig, Some e) \<Rightarrow> Raise e (leave_open fig w)
                    | (fig, None) \<Rightarrow>
                        (case finish E iflag
                                (outFilePath simulation
                                   (probe_name probe @ ''_'' @ medium @ ''_T.pdf''))
                                outDirPath outFileName outFilePath' fig w of
                           Returned w' \<Rightarrow> Next (Some figSize') w'
                         | Raised e w' \<Rightarrow> Raise e w'))))"

text \<open>Lines 43-88: the loop over the probes, \<open>figSize\<close> carried from one pass to the next.\<close>

fun temperatureLoop :: "env \<Rightarrow> simulation \<Rightarrow> path option \<Rightarrow> string option \<Rightarrow> path option
                          \<Rightarrow> bool option \<Rightarrow> (real \<times> real) option \<Rightarrow> probe list \<Rightarrow> world
                          \<Rightarrow> outcome" where
  "temperatureLoop E simulation outDirPath outFileName outFilePath' iflag figSize [] w =
     Returned w"
| "temperatureLoop E simulation outDirPath outFileName outFilePath' iflag figSize (probe # rest) w =
     (case temperatureProbe E simulation outDirPath outFileName outFilePath' figSize iflag probe w of
        Next figSize' w' \<Rightarrow>
          temperatureLoop E simulation outDirPath outFileName outFilePath' iflag figSize' rest w'
      | Return w' \<Rightarrow> Returned w'
      | Raise e w' \<Rightarrow> Raised e w')"

text \<open>
  \<^verbatim>\<open>plotTemperatureCuts(simulation, outDirPath, outFileName, outFilePath, figSize, interactive)\<close>.
\<close>

definition plotTemperatureCuts :: "env \<Rightarrow> simulation \<Rightarrow> path option \<Rightarrow> string option \<Rightarrow> path option
                                     \<Rightarrow> (real \<times> real) option \<Rightarrow> bool option \<Rightarrow> world
                                     \<Rightarrow> outcome" where
  "plotTemperatureCuts E simulation outDirPath outFileName outFilePath' figSize iflag =
     temperatureLoop E simulation outDirPath outFileName outFilePath' iflag figSize
       (temperatureProbes simulation)"

section \<open>Notions used in the statements\<close>

text \<open>
  The combinations of probe, medium and cut plane that \<open>plotMediaDensityCuts\<close> visits, in
  the order of its three nested loops.
\<close>

definition densityJobs :: "simulation \<Rightarrow> (probe \<times> string \<times> string) list" where
  "densityJobs simulation =
     [(probe, medium, cut'). probe \<leftarrow> densityProbes simulation,
        medium \<leftarrow> [''dust'', ''elec'', ''gas''], cut' \<leftarrow> [''xy'', ''xz'', ''yz'']]"

text \<open>Exactly one theoretical and one gridded file were found for a combination.\<close>

definition countsOk :: "probe \<times> string \<times> string \<Rightarrow> bool" where
  "countsOk = (\<lambda>(probe, medium, cut').
     length (outFilePaths probe (medium @ ''_t_'' @ cut' @ ''.fits'')) = 1 \<and>
     length (outFilePaths probe (medium @ ''_g_'' @ cut' @ ''.fits'')) = 1)"

text \<open>The number of temperature cuts found for a probe, and whether it is 1, 2 or 3.\<close>

definition numCuts :: "probe \<Rightarrow> nat" where
  "numCuts probe = length (outFilePaths probe (mediumOf (probe_type probe) @ ''_T_*.fits''))"

definition cutsFound :: "probe \<Rightarrow> bool" where
  "cutsFound probe = (numCuts probe \<in> {1, 2, 3})"

text \<open>The file names handed to \<^verbatim>\<open>simulation.outFilePath\<close> by the two functions.\<close>

definition densityName :: "probe \<Rightarrow> string \<Rightarrow> string \<Rightarrow> string" where
  "densityName probe medium cut' = probe_name probe @ ''_'' @ medium @ ''_'' @ cut' @ ''.pdf''"

definition temperatureName :: "probe \<Rightarrow> string" where
  "temperatureName probe = probe_name probe @ ''_'' @ mediumOf (probe_type probe) @ ''_T.pdf''"

text \<open>
  The naming convention of the specification:
  \<^verbatim>\<open>{probeName}_{medium}_{cut}.{ext}\<close>.
\<close>

definition conventionName :: "string \<Rightarrow> string \<Rightarrow> string \<Rightarrow> string \<Rightarrow> string" where
  "conventionName probeName medium cut' ext =
     probeName @ ''_'' @ medium @ ''_'' @ cut' @ ''.'' @ ext"

text \<open>The size of the figure drawn for a probe, given the value \<open>figSize\<close> has on entry.\<close>

definition sizeFor :: "(real \<times> real) option \<Rightarrow> probe \<Rightarrow> real \<times> real" where
  "sizeFor figSize probe =
     (case figSize of None \<Rightarrow> (8 * real (numCuts probe), 6) | Some s \<Rightarrow> s)"

text \<open>
  The value \<open>figSize\<close> has after the probes \<open>done\<close> have been processed: it is set in the
  first pass, if it was not given.
\<close>

definition figSizeAfter :: "(real \<times> real) option \<Rightarrow> probe list \<Rightarrow> (real \<times> real) option" where
  "figSizeAfter figSize done =
     (case done of [] \<Rightarrow> figSize | probe # _ \<Rightarrow> Some (sizeFor figSize probe))"

text \<open>The kind of a normalizer, and its two limits.\<close>

fun is_log :: "normalizer \<Rightarrow> bool" where
  "is_log (LogNorm lo hi) = True"
| "is_log (Normalize lo hi) = False"


text \<open>
  The theoretical and the gridded file of a combination are found once each and load as
  the frames \<open>tf\<close> and \<open>gf\<close>, on the axes \<open>xg\<close> and \<open>yg\<close>.
\<close>

definition densityFiles :: "env \<Rightarrow> probe \<Rightarrow> string \<Rightarrow> string \<Rightarrow> frame \<Rightarrow> frame \<Rightarrow> grid \<Rightarrow> grid
                              \<Rightarrow> bool" where
  "densityFiles E probe medium cut' tf gf xg yg =
     (\<exists>tPath gPath.
        outFilePaths probe (medium @ ''_t_'' @ cut' @ ''.fits'') = [tPath] \<and>
        outFilePaths probe (medium @ ''_g_'' @ cut' @ ''.fits'') = [gPath] \<and>
        loadFits E tPath = Inr tf \<and> loadFits E gPath = Inr gf \<and>
        getFitsAxes E tPath = Inr (xg, yg))"

text \<open>
  The temperature cuts of a probe are one to three files, named for the cuts \<open>cuts\<close>, and
  they load as the frames \<open>frames\<close> on the axes \<open>grids\<close>, in this order.
\<close>

definition temperatureFiles :: "env \<Rightarrow> probe \<Rightarrow> string list \<Rightarrow> frame list \<Rightarrow> (grid \<times> grid) list
                                  \<Rightarrow> bool" where
  "temperatureFiles E probe cuts frames grids =
     (let paths = outFilePaths probe (mediumOf (probe_type probe) @ ''_T_*.fits'')
      in length paths \<in> {1, 2, 3} \<and>
         map cutOf paths = map Inr cuts \<and>
         map (loadFits E) paths = map Inr frames \<and>
         map (getFitsAxes E) paths = map Inr grids)"

text \<open>
  The figures a world \<open>v\<close> has beyond those of an earlier world \<open>w\<close>: the ones written to
  a file since, then the ones left open since.
\<close>

definition drawnAfter :: "world \<Rightarrow> world \<Rightarrow> figure list" where
  "drawnAfter w v =
     map snd (drop (length (saved w)) (saved v)) @ drop (length (open_figs w)) (open_figs v)"

text \<open>All figures of a world, written to a file or still open.\<close>

definition figures :: "world \<Rightarrow> figure list" where
  "figures w = map snd (saved w) @ open_figs w"

fun flow_world :: "flow \<Rightarrow> world" where
  "flow_world (Next figSize w) = w"
| "flow_world (Return w) = w"
| "flow_world (Raise e w) = w"

section \<open>Example inputs\<close>

definition exampleRepo :: path where
  "exampleRepo = \<lparr>is_absolute = True, components = [''home'', ''user'', ''pts'']\<rparr>"

definition tFrame0 :: frame where
  "tFrame0 = \<lparr>fdata = [[1, 200], [30, 4]], funit = ''kg/m3''\<rparr>"

definition gFrame0 :: frame where
  "gFrame0 = \<lparr>fdata = [[5, 1000], [0, 2]], funit = ''kg/m3''\<rparr>"

definition zeroFrame :: frame where
  "zeroFrame = \<lparr>fdata = [[0, 0], [0, 0]], funit = ''kg/m3''\<rparr>"

definition grid0 :: grid where
  "grid0 = \<lparr>coords = [-1, 0, 1], gunit = ''pc''\<rparr>"

definition outPath :: "string \<Rightarrow> path" where
  "outPath n = \<lparr>is_absolute = False, components = [''out'', ''sim_'' @ n]\<rparr>"

text \<open>
  Libraries that succeed: one gridded density file loads as \<open>gFrame0\<close> and every other file
  as \<open>tFrame0\<close>, all on \<open>grid0\<close>; the default save
  path is kept, only the argument \<^verbatim>\<open>interactive=True\<close> turns interactive mode on, and the
  colour bar moves limits that coincide apart.
\<close>

definition Eok :: env where
  "Eok = \<lparr>loadFits = (\<lambda>p. if p = outPath ''dns_dust_g_xy.fits'' then Inr gFrame0
                             else Inr tFrame0),
          getFitsAxes = (\<lambda>p. Inr (grid0, grid0)),
          latexForUnit = (\<lambda>u. '' ['' @ u @ '']''),
          interactive = (\<lambda>flag. flag = Some True),
          savePath = (\<lambda>d suffixes odp ofn ofp. Inr d),
          savefig = (\<lambda>p fig. None),
          nonsingular = (\<lambda>(lo, hi).
             if lo = hi then (Finite (- (1 / 10)), Finite (1 / 10)) else (lo, hi))\<rparr>"

text \<open>
  The same, but two of the files cannot be loaded; but every file holds zeros only; but no
  axes can be read; but no save path is found; but no file can be written.
\<close>

definition Eload :: env where
  "Eload = Eok\<lparr>loadFits := (\<lambda>p.
      if p = outPath ''dns_dust_g_xy.fits'' \<or> p = outPath ''etp_elec_T_xz.fits''
      then Inl (LibraryError ''cannot read'') else Inr tFrame0)\<rparr>"

definition Ezero :: env where
  "Ezero = Eok\<lparr>loadFits := (\<lambda>p. Inr zeroFrame)\<rparr>"

definition Eaxes :: env where
  "Eaxes = Eok\<lparr>getFitsAxes := (\<lambda>p. Inl (LibraryError ''no axes''))\<rparr>"

definition Epath :: env where
  "Epath = Eok\<lparr>savePath := (\<lambda>d suffixes odp ofn ofp. Inl (LibraryError ''bad suffix''))\<rparr>"

definition Esave :: env where
  "Esave = Eok\<lparr>savefig := (\<lambda>p fig. Some (LibraryError ''cannot write''))\<rparr>"

definition w0 :: world where
  "w0 = \<lparr>saved = [], open_figs = [], logged = []\<rparr>"

text \<open>
  A density probe with one theoretical and one gridded file for the \<open>xy\<close> cut of the dust,
  a theoretical file only for its \<open>xz\<close> cut, and nothing else.
\<close>

definition densProbe :: probe where
  "densProbe = \<lparr>probe_type = ''DefaultMediaDensityCutsProbe'', probe_name = ''dns'',
     outFilePaths = (\<lambda>pat.
        if pat = ''dust_t_xy.fits'' then [outPath ''dns_dust_t_xy.fits'']
        else if pat = ''dust_g_xy.fits'' then [outPath ''dns_dust_g_xy.fits'']
        else if pat = ''dust_t_xz.fits'' then [outPath ''dns_dust_t_xz.fits'']
        else [])\<rparr>"

text \<open>Temperature probes with one cut, with no file at all, and with three cuts.\<close>

definition tmpProbe :: probe where
  "tmpProbe = \<lparr>probe_type = ''DefaultDustTemperatureCutsProbe'', probe_name = ''tmp'',
     outFilePaths = (\<lambda>pat.
        if pat = ''dust_T_*.fits'' then [outPath ''tmp_dust_T_xy.fits''] else [])\<rparr>"

definition gasProbe :: probe where
  "gasProbe = \<lparr>probe_type = ''PlanarGasTemperatureCutsProbe'', probe_name = ''gtp'',
     outFilePaths = (\<lambda>pat. [])\<rparr>"

definition elecProbe :: probe where
  "elecProbe = \<lparr>probe_type = ''PlanarElectronTemperatureCutsProbe'', probe_name = ''etp'',
     outFilePaths = (\<lambda>pat.
        if pat = ''elec_T_*.fits''
        then [outPath ''etp_elec_T_xy.fits'', outPath ''etp_elec_T_xz.fits'',
              outPath ''etp_elec_T_yz.fits'']
        else [])\<rparr>"

text \<open>A probe of a type that neither function looks for.\<close>

definition otherProbe :: probe where
  "otherProbe = \<lparr>probe_type = ''SpatialGridConvergenceProbe'', probe_name = ''cnv'',
     outFilePaths = (\<lambda>pat. [])\<rparr>"

definition simOf :: "probe list \<Rightarrow> simulation" where
  "simOf ps = \<lparr>probes = ps, outFilePath = outPath\<rparr>"

text \<open>The definitions that evaluating the two functions on the examples unfolds.\<close>

lemmas example_defs =
  simOf_def outPath_def Eok_def Eload_def Ezero_def Eaxes_def Epath_def Esave_def w0_def tFrame0_def gFrame0_def
  zeroFrame_def grid0_def densProbe_def tmpProbe_def gasProbe_def elecProbe_def otherProbe_def

lemmas model_defs =
  plotMediaDensityCuts_def densityProbes_def densityCut_def densityLoad_def densityRange_def
  divPow10_def densityFigure_def chooseNormalizer_def clip_def blank_def frameMax_def axesOf_def
  plotTemperatureCuts_def temperatureProbes_def temperatureProbe_def temperatureLoad_def
  temperatureFigure_def withColorbar_def framesMax_def cutOf_def mediumOf_def
  probetypes_def extentOf_def axisLabels_def finish_def leave_open_def bindE_def
  first_item_def last_item_def stem_def name_def Let_def

section \<open>Loops and their bodies\<close>

subsection \<open>Strings and reductions\<close>

lemma split_nonempty: "split c s \<noteq> []"
  by (induction s) (auto split: list.splits)

lemma cutOf_total: "\<exists>c. cutOf p = Inr c"
  using split_nonempty [of "CHR ''_''" "stem p"]
  by (cases "rev (split (CHR ''_'') (stem p))") (auto simp: cutOf_def last_item_def)

lemma probetypes_eq:
  "probetypes =
     [''DefaultDustTemperatureCutsProbe'', ''DefaultGasTemperatureCutsProbe'',
      ''DefaultElectronTemperatureCutsProbe'', ''PlanarDustTemperatureCutsProbe'',
      ''PlanarGasTemperatureCutsProbe'', ''PlanarElectronTemperatureCutsProbe'']"
  by (simp add: probetypes_def)

lemma fold_max_Max: "fold max vs (v::real) = Max (set (v # vs))"
  by (rule Max.set_eq_fold [symmetric])

subsection \<open>The \<^verbatim>\<open>for\<close> loops of \<open>plotMediaDensityCuts\<close>\<close>

lemma forEach_append:
  "forEach body (xs @ ys) w =
     (case forEach body xs w of Returned w' \<Rightarrow> forEach body ys w' | Raised e w' \<Rightarrow> Raised e w')"
  by (induction xs arbitrary: w) (auto split: outcome.splits)

lemma forEach_filter:
  assumes "\<And>x w. x \<in> set xs \<Longrightarrow> \<not> P x \<Longrightarrow> body x w = Returned w"
  shows "forEach body (filter P xs) w = forEach body xs w"
  using assms by (induction xs arbitrary: w) (auto split: outcome.splits)

lemma forEach_concat:
  "forEach (\<lambda>x. forEach (body x) (f x)) xs w =
     forEach (\<lambda>(x, y). body x y) (concat (map (\<lambda>x. map (Pair x) (f x)) xs)) w"
proof (induction xs arbitrary: w)
  case Nil
  show ?case by simp
next
  case (Cons x xs)
  have inner: "forEach (\<lambda>(x, y). body x y) (map (Pair x) ys) w = forEach (body x) ys w" for ys w
    by (induction ys arbitrary: w) (auto split: outcome.splits)
  show ?case
    by (simp add: forEach_append inner Cons.IH split: outcome.splits)
qed

lemma forEach_invariant:
  assumes "\<And>x w. x \<in> set xs \<Longrightarrow> I w \<Longrightarrow> I (world_of (body x w))" and "I w"
  shows "I (world_of (forEach body xs w))"
  using assms
proof (induction xs arbitrary: w)
  case Nil
  then show ?case by simp
next
  case (Cons x xs)
  have "I (world_of (body x w))" using Cons.prems by simp
  then show ?case
    using Cons.IH [of "world_of (body x w)"] Cons.prems(1)
    by (cases "body x w") auto
qed

lemma forEach_returned:
  assumes "\<And>x v v'. x \<in> set xs \<Longrightarrow> body x v = Returned v' \<Longrightarrow>
             f v' = f v + (if P x then 1 else (0::nat))"
    and "forEach body xs w = Returned w'"
  shows "f w' = f w + length (filter P xs)"
  using assms
proof (induction xs arbitrary: w)
  case Nil
  then show ?case by simp
next
  case (Cons x xs)
  from Cons.prems(2) obtain v where v: "body x w = Returned v" "forEach body xs v = Returned w'"
    by (auto split: outcome.splits)
  have "f v = f w + (if P x then 1 else 0)"
    using Cons.prems(1) [of x w v] v(1) by simp
  moreover have "f w' = f v + length (filter P xs)"
    using Cons.IH [OF _ v(2)] Cons.prems(1) by auto
  ultimately show ?case by simp
qed

lemma forEach_returned_same:
  assumes "\<And>x v v'. x \<in> set xs \<Longrightarrow> body x v = Returned v' \<Longrightarrow> f v' = f v"
    and "forEach body xs w = Returned w'"
  shows "f w' = f w"
  using assms
proof (induction xs arbitrary: w)
  case Nil
  then show ?case by simp
next
  case (Cons x xs)
  from Cons.prems(2) obtain v where v: "body x w = Returned v" "forEach body xs v = Returned w'"
    by (auto split: outcome.splits)
  have "f v = f w" using Cons.prems(1) [of x w v] v(1) by simp
  moreover have "f w' = f v" using Cons.IH [OF _ v(2)] Cons.prems(1) by auto
  ultimately show ?case by simp
qed

lemma plotMediaDensityCuts_jobs:
  "plotMediaDensityCuts E simulation decades outDirPath figSize iflag w =
     forEach (\<lambda>(probe, medium, cut').
                densityCut E simulation decades outDirPath figSize iflag probe medium cut')
       (densityJobs simulation) w"
proof -
  let ?body = "densityCut E simulation decades outDirPath figSize iflag"
  have inner: "forEach (\<lambda>medium. forEach (?body probe medium) [''xy'', ''xz'', ''yz''])
                 [''dust'', ''elec'', ''gas''] =
               forEach (\<lambda>(medium, cut'). ?body probe medium cut')
                 (concat (map (\<lambda>medium. map (Pair medium) [''xy'', ''xz'', ''yz''])
                    [''dust'', ''elec'', ''gas'']))" for probe
    by (rule ext) (rule forEach_concat)
  have "plotMediaDensityCuts E simulation decades outDirPath figSize iflag w =
          forEach (\<lambda>probe. forEach (\<lambda>(medium, cut'). ?body probe medium cut')
                 (concat (map (\<lambda>medium. map (Pair medium) [''xy'', ''xz'', ''yz''])
                    [''dust'', ''elec'', ''gas'']))) (densityProbes simulation) w"
    unfolding plotMediaDensityCuts_def inner ..
  also have "\<dots> = forEach (\<lambda>(probe, medium, cut'). ?body probe medium cut')
                 (concat (map (\<lambda>probe. map (Pair probe) 
                  (concat (map (\<lambda>medium. map (Pair medium) [''xy'', ''xz'', ''yz''])
                    [''dust'', ''elec'', ''gas'']))) (densityProbes simulation))) w"
    by (simp only: forEach_concat [where body = "\<lambda>probe (medium, cut'). ?body probe medium cut'"])
  also have "(concat (map (\<lambda>probe. map (Pair probe) 
                  (concat (map (\<lambda>medium. map (Pair medium) [''xy'', ''xz'', ''yz''])
                    [''dust'', ''elec'', ''gas'']))) (densityProbes simulation))) = densityJobs simulation"
    unfolding densityJobs_def by (induction "densityProbes simulation") simp_all
  finally show ?thesis .
qed

subsection \<open>The loop bodies by cases\<close>

lemma finish_cases:
  "(interactive E iflag \<and> finish E iflag d odp ofn ofp fig w = Returned (leave_open fig w)) \<or>
   (\<not> interactive E iflag \<and> (\<exists>e. finish E iflag d odp ofn ofp fig w = Raised e (leave_open fig w))) \<or>
   (\<not> interactive E iflag \<and>
      (\<exists>sp. savePath E d [''.pdf'', ''.png''] odp ofn ofp = Inr sp \<and>
            finish E iflag d odp ofn ofp fig w =
              Returned (w\<lparr>saved := saved w @ [(sp, fig)], logged := logged w @ [sp]\<rparr>)))"
  by (auto simp: finish_def split: sum.splits option.splits)

lemma densityCut_skip:
  "\<not> countsOk (probe, medium, cut') \<Longrightarrow>
   densityCut E simulation decades outDirPath figSize iflag probe medium cut' w = Returned w"
  by (auto simp: densityCut_def countsOk_def Let_def)

lemma densityFigure_size:
  "fig_size (fst (densityFigure E figSize cut' tImage gImage tUnit xg yg vmin vmax)) = figSize"
  by (simp add: densityFigure_def blank_def Let_def split: sum.splits prod.splits)

lemma densityCut_cases:
  assumes "countsOk (probe, medium, cut')"
  shows "(\<exists>e. densityCut E simulation decades outDirPath figSize iflag probe medium cut' w =
               Raised e w) \<or>
         (\<exists>e fig. fig_size fig = figSize \<and>
            densityCut E simulation decades outDirPath figSize iflag probe medium cut' w =
               Raised e (leave_open fig w)) \<or>
         (\<exists>fig. fig_size fig = figSize \<and>
            densityCut E simulation decades outDirPath figSize iflag probe medium cut' w =
              finish E iflag (outFilePath simulation (densityName probe medium cut'))
                outDirPath None None fig w)"
proof -
  let ?tP = "hd (outFilePaths probe (medium @ ''_t_'' @ cut' @ ''.fits''))"
  let ?gP = "hd (outFilePaths probe (medium @ ''_g_'' @ cut' @ ''.fits''))"
  have n: "length (outFilePaths probe (medium @ ''_t_'' @ cut' @ ''.fits'')) = 1 \<and>
           length (outFilePaths probe (medium @ ''_g_'' @ cut' @ ''.fits'')) = 1"
    using assms by (simp add: countsOk_def)
  show ?thesis
  proof (cases "densityLoad E decades ?tP ?gP")
    case (Inl e)
    then show ?thesis using n by (simp add: densityCut_def Let_def)
  next
    case (Inr loaded)
    obtain tImage gImage tUnit xg yg vmin vmax
      where l: "loaded = (tImage, gImage, tUnit, xg, yg, vmin, vmax)"
      by (cases loaded) auto
    obtain fig r
      where f: "densityFigure E figSize cut' tImage gImage tUnit xg yg vmin vmax = (fig, r)"
      by (cases "densityFigure E figSize cut' tImage gImage tUnit xg yg vmin vmax") auto
    have sz: "fig_size fig = figSize"
      using densityFigure_size [of E figSize cut' tImage gImage tUnit xg yg vmin vmax] f
      by simp
    show ?thesis
    proof (cases r)
      case None
      then have "densityCut E simulation decades outDirPath figSize iflag probe medium cut' w =
                   finish E iflag (outFilePath simulation (densityName probe medium cut'))
                     outDirPath None None fig w"
        using n Inr l f by (simp add: densityCut_def Let_def densityName_def)
      then show ?thesis using sz by blast
    next
      case (Some e)
      then have "densityCut E simulation decades outDirPath figSize iflag probe medium cut' w =
                   Raised e (leave_open fig w)"
        using n Inr l f by (simp add: densityCut_def Let_def)
      then show ?thesis using sz by blast
    qed
  qed
qed

lemma temperatureProbe_skip:
  "\<not> cutsFound probe \<Longrightarrow>
   temperatureProbe E simulation odp ofn ofp figSize iflag probe w = Return w"
  by (auto simp: temperatureProbe_def cutsFound_def numCuts_def Let_def)

lemma temperatureFigure_size:
  "fig_size (fst (temperatureFigure E figSize cuts frames grids Tmax fr)) = figSize"
  by (simp add: temperatureFigure_def split: prod.splits option.splits)

lemma temperatureProbe_cases:
  assumes "cutsFound probe"
  shows "(\<exists>e. temperatureProbe E simulation odp ofn ofp figSize iflag probe w = Raise e w) \<or>
         (\<exists>e fig. fig_size fig = sizeFor figSize probe \<and>
            temperatureProbe E simulation odp ofn ofp figSize iflag probe w =
              Raise e (leave_open fig w)) \<or>
         (\<exists>fig. fig_size fig = sizeFor figSize probe \<and>
            temperatureProbe E simulation odp ofn ofp figSize iflag probe w =
              (case finish E iflag (outFilePath simulation (temperatureName probe))
                      odp ofn ofp fig w of
                 Returned w' \<Rightarrow> Next (Some (sizeFor figSize probe)) w'
               | Raised e w' \<Rightarrow> Raise e w'))"
proof -
  let ?paths = "outFilePaths probe (mediumOf (probe_type probe) @ ''_T_*.fits'')"
  have n: "length ?paths \<in> set [1, 2, 3]"
    using assms by (simp add: cutsFound_def numCuts_def)
  show ?thesis
  proof (cases "temperatureLoad E ?paths")
    case (Inl e)
    then show ?thesis
      using n by (auto simp: temperatureProbe_def Let_def)
  next
    case (Inr loaded)
    obtain cuts frames grids Tmax fr where l: "loaded = (cuts, frames, grids, Tmax, fr)"
      by (cases loaded) auto
    obtain fig r where f: "temperatureFigure E (sizeFor figSize probe) cuts frames grids Tmax fr = (fig, r)"
      by (cases "temperatureFigure E (sizeFor figSize probe) cuts frames grids Tmax fr") auto
    have sz: "fig_size fig = sizeFor figSize probe"
      using temperatureFigure_size [of E "sizeFor figSize probe" cuts frames grids Tmax fr] f
      by simp
    have s: "(case figSize of None \<Rightarrow> (8 * real (length ?paths), 6) | Some s \<Rightarrow> s) =
               sizeFor figSize probe"
      by (simp add: sizeFor_def numCuts_def split: option.splits)
    show ?thesis
    proof (cases r)
      case None
      then have "temperatureProbe E simulation odp ofn ofp figSize iflag probe w =
              (case finish E iflag (outFilePath simulation (temperatureName probe))
                      odp ofn ofp fig w of
                 Returned w' \<Rightarrow> Next (Some (sizeFor figSize probe)) w'
               | Raised e w' \<Rightarrow> Raise e w')"
        using n Inr l f
        by (auto simp: temperatureProbe_def Let_def s temperatureName_def)
      then show ?thesis using sz by blast
    next
      case (Some e)
      then have "temperatureProbe E simulation odp ofn ofp figSize iflag probe w =
              Raise e (leave_open fig w)"
        using n Inr l f
        by (auto simp: temperatureProbe_def Let_def s)
      then show ?thesis using sz by blast
    qed
  qed
qed

lemma temperatureProbe_not_Return:
  assumes "cutsFound p"
  shows "temperatureProbe E simulation odp ofn ofp figSize iflag p w \<noteq> Return v"
proof -
  consider (a) e where "temperatureProbe E simulation odp ofn ofp figSize iflag p w = Raise e w"
    | (b) e fig where "temperatureProbe E simulation odp ofn ofp figSize iflag p w =
                         Raise e (leave_open fig w)"
    | (c) fig where "temperatureProbe E simulation odp ofn ofp figSize iflag p w =
              (case finish E iflag (outFilePath simulation (temperatureName p))
                      odp ofn ofp fig w of
                 Returned w' \<Rightarrow> Next (Some (sizeFor figSize p)) w'
               | Raised e w' \<Rightarrow> Raise e w')"
    using temperatureProbe_cases [OF assms, of E simulation odp ofn ofp figSize iflag w]
    by blast
  then show ?thesis
  proof cases
    case c
    then show ?thesis
      by (cases "finish E iflag (outFilePath simulation (temperatureName p)) odp ofn ofp fig w")
         simp_all
  qed simp_all
qed

subsection \<open>The loop of \<open>plotTemperatureCuts\<close>\<close>

lemma temperatureLoop_takeWhile:
  "temperatureLoop E simulation odp ofn ofp iflag figSize ps w =
   temperatureLoop E simulation odp ofn ofp iflag figSize (takeWhile cutsFound ps) w"
proof (induction ps arbitrary: figSize w)
  case Nil
  show ?case by simp
next
  case (Cons p ps)
  show ?case
  proof (cases "cutsFound p")
    case True
    then show ?thesis using Cons.IH by (simp split: flow.splits)
  next
    case False
    then show ?thesis by (simp add: temperatureProbe_skip)
  qed
qed

lemma takeWhile_stop:
  "\<not> P y \<Longrightarrow> takeWhile P (xs @ y # zs) = takeWhile P xs"
  by (induction xs) auto

lemma temperatureProbe_probes_update:
  "temperatureProbe E (simulation\<lparr>probes := ps\<rparr>) = temperatureProbe E simulation"
  by (intro ext) (simp add: temperatureProbe_def Let_def split: sum.splits prod.splits)

lemma temperatureLoop_probes_update:
  "temperatureLoop E (simulation\<lparr>probes := qs\<rparr>) odp ofn ofp iflag figSize ps w =
   temperatureLoop E simulation odp ofn ofp iflag figSize ps w"
  by (induction ps arbitrary: figSize w)
     (simp_all add: temperatureProbe_probes_update split: flow.splits)

lemma temperatureLoop_invariant:
  assumes "\<And>figSize p v. p \<in> set ps \<Longrightarrow> J figSize \<Longrightarrow> I v \<Longrightarrow>
             I (flow_world (temperatureProbe E simulation odp ofn ofp figSize iflag p v)) \<and>
             (\<forall>figSize' v'. temperatureProbe E simulation odp ofn ofp figSize iflag p v =
                 Next figSize' v' \<longrightarrow> J figSize')"
    and "J figSize" and "I w"
  shows "I (world_of (temperatureLoop E simulation odp ofn ofp iflag figSize ps w))"
  using assms
proof (induction ps arbitrary: figSize w)
  case Nil
  then show ?case by simp
next
  case (Cons p ps)
  let ?r = "temperatureProbe E simulation odp ofn ofp figSize iflag p w"
  have step: "I (flow_world ?r)" "\<And>figSize' v'. ?r = Next figSize' v' \<Longrightarrow> J figSize'"
    using Cons.prems(1) [of p figSize w] Cons.prems(2,3) by auto
  show ?case
  proof (cases ?r)
    case (Next figSize' v')
    have "I (world_of (temperatureLoop E simulation odp ofn ofp iflag figSize' ps v'))"
    proof (rule Cons.IH)
      show "J figSize'" using step(2) Next by simp
      show "I v'" using step(1) Next by simp
    qed (rule Cons.prems(1), simp_all)
    then show ?thesis using Next by simp
  next
    case (Return v')
    then show ?thesis using step(1) by simp
  next
    case (Raise e v')
    then show ?thesis using step(1) by simp
  qed
qed

lemma temperatureLoop_returned:
  assumes "\<And>figSize p v figSize' v'. p \<in> set ps \<Longrightarrow>
             temperatureProbe E simulation odp ofn ofp figSize iflag p v = Next figSize' v' \<Longrightarrow>
             f v' = f v + (1::nat)"
    and "temperatureLoop E simulation odp ofn ofp iflag figSize ps w = Returned w'"
  shows "f w' = f w + length (takeWhile cutsFound ps)"
  using assms
proof (induction ps arbitrary: figSize w)
  case Nil
  then show ?case by simp
next
  case (Cons p ps)
  show ?case
  proof (cases "cutsFound p")
    case False
    then show ?thesis using Cons.prems(2) by (simp add: temperatureProbe_skip)
  next
    case True
    have "\<And>v. temperatureProbe E simulation odp ofn ofp figSize iflag p w \<noteq> Return v"
      using temperatureProbe_not_Return [OF True] .
    with Cons.prems(2) obtain figSize' v where
      v: "temperatureProbe E simulation odp ofn ofp figSize iflag p w = Next figSize' v"
         "temperatureLoop E simulation odp ofn ofp iflag figSize' ps v = Returned w'"
      by (auto split: flow.splits)
    have "f v = f w + 1" using Cons.prems(1) [of p figSize w figSize' v] v(1) by simp
    moreover have "f w' = f v + length (takeWhile cutsFound ps)"
      by (rule Cons.IH [OF _ v(2)])
         (rule Cons.prems(1) [OF list.set_intros(2)], assumption+)
    ultimately show ?thesis using True by simp
  qed
qed

lemma temperatureLoop_returned_same:
  assumes "\<And>figSize p v figSize' v'. p \<in> set ps \<Longrightarrow>
             temperatureProbe E simulation odp ofn ofp figSize iflag p v = Next figSize' v' \<Longrightarrow>
             f v' = f v"
    and "\<And>figSize p v v'. p \<in> set ps \<Longrightarrow>
             temperatureProbe E simulation odp ofn ofp figSize iflag p v = Return v' \<Longrightarrow>
             f v' = f v"
    and "temperatureLoop E simulation odp ofn ofp iflag figSize ps w = Returned w'"
  shows "f w' = f w"
  using assms
proof (induction ps arbitrary: figSize w)
  case Nil
  then show ?case by simp
next
  case (Cons p ps)
  show ?case
  proof (cases "temperatureProbe E simulation odp ofn ofp figSize iflag p w")
    case (Next figSize' v)
    then have l: "temperatureLoop E simulation odp ofn ofp iflag figSize' ps v = Returned w'"
      using Cons.prems(3) by simp
    have "f v = f w" using Cons.prems(1) [of p figSize w figSize' v] Next by simp
    moreover have "f w' = f v"
    proof (rule Cons.IH [OF _ _ l])
      show "f v2 = f v1"
        if "q \<in> set ps"
          and "temperatureProbe E simulation odp ofn ofp fs iflag q v1 = Next fs' v2"
        for fs q v1 fs' v2
        using Cons.prems(1) [OF list.set_intros(2)] that by blast
      show "f v2 = f v1"
        if "q \<in> set ps"
          and "temperatureProbe E simulation odp ofn ofp fs iflag q v1 = Return v2"
        for fs q v1 v2
        using Cons.prems(2) [OF list.set_intros(2)] that by blast
    qed
    ultimately show ?thesis by simp
  next
    case (Return v)
    then show ?thesis using Cons.prems(2) [of p figSize w v] Cons.prems(3) by simp
  next
    case (Raise e v)
    then show ?thesis using Cons.prems(3) by simp
  qed
qed

subsection \<open>Files written by one pass\<close>

lemma finish_saved:
  "saved (world_of (finish E iflag d odp ofn ofp fig v)) = saved v \<or>
   (\<not> interactive E iflag \<and>
    (\<exists>sp. savePath E d [''.pdf'', ''.png''] odp ofn ofp = Inr sp \<and>
          saved (world_of (finish E iflag d odp ofn ofp fig v)) = saved v @ [(sp, fig)]))"
  using finish_cases [of E iflag d odp ofn ofp fig v]
  by (auto simp: leave_open_def)

lemma densityCut_saved:
  "saved (world_of (densityCut E simulation decades odp figSize iflag probe medium cut' v)) =
     saved v \<or>
   (countsOk (probe, medium, cut') \<and> \<not> interactive E iflag \<and>
    (\<exists>sp fig. savePath E (outFilePath simulation (densityName probe medium cut'))
                 [''.pdf'', ''.png''] odp None None = Inr sp \<and>
       saved (world_of (densityCut E simulation decades odp figSize iflag probe medium cut' v)) =
         saved v @ [(sp, fig)]))"
proof (cases "countsOk (probe, medium, cut')")
  case False
  then show ?thesis by (simp add: densityCut_skip)
next
  case True
  from densityCut_cases [OF True, of E simulation decades odp figSize iflag v]
  show ?thesis
  proof (elim disjE exE conjE)
    fix fig
    assume "densityCut E simulation decades odp figSize iflag probe medium cut' v =
              finish E iflag (outFilePath simulation (densityName probe medium cut'))
                odp None None fig v"
    then show ?thesis
      using finish_saved [of E iflag "outFilePath simulation (densityName probe medium cut')"
                             odp None None fig v] True
      by auto
  qed (simp_all add: leave_open_def)
qed

lemma temperatureProbe_saved:
  "saved (flow_world (temperatureProbe E simulation odp ofn ofp figSize iflag probe v)) =
     saved v \<or>
   (cutsFound probe \<and> \<not> interactive E iflag \<and>
    (\<exists>sp fig. savePath E (outFilePath simulation (temperatureName probe))
                 [''.pdf'', ''.png''] odp ofn ofp = Inr sp \<and>
       saved (flow_world (temperatureProbe E simulation odp ofn ofp figSize iflag probe v)) =
         saved v @ [(sp, fig)]))"
proof (cases "cutsFound probe")
  case False
  then show ?thesis by (simp add: temperatureProbe_skip)
next
  case True
  from temperatureProbe_cases [OF True, of E simulation odp ofn ofp figSize iflag v]
  show ?thesis
  proof (elim disjE exE conjE)
    fix fig
    let ?f = "finish E iflag (outFilePath simulation (temperatureName probe)) odp ofn ofp fig v"
    assume "temperatureProbe E simulation odp ofn ofp figSize iflag probe v =
              (case ?f of Returned w' \<Rightarrow> Next (Some (sizeFor figSize probe)) w'
                        | Raised e w' \<Rightarrow> Raise e w')"
    then have "flow_world (temperatureProbe E simulation odp ofn ofp figSize iflag probe v) =
               world_of ?f"
      by (cases ?f) simp_all
    then show ?thesis
      using finish_saved [of E iflag "outFilePath simulation (temperatureName probe)"
                             odp ofn ofp fig v] True
      by auto
  qed (simp_all add: leave_open_def)
qed

lemma in_triples:
  "(a, b, c) \<in> set [(x, y, z). x \<leftarrow> xs, y \<leftarrow> ys, z \<leftarrow> zs] \<longleftrightarrow>
   a \<in> set xs \<and> b \<in> set ys \<and> c \<in> set zs"
  by auto

lemma densityJobs_member:
  "(probe, medium, cut') \<in> set (densityJobs simulation) \<longleftrightarrow>
   probe \<in> set (densityProbes simulation) \<and> medium \<in> set [''dust'', ''elec'', ''gas''] \<and>
   cut' \<in> set [''xy'', ''xz'', ''yz'']"
  unfolding densityJobs_def by (rule in_triples)

subsection \<open>Figures made by one pass\<close>

lemma finish_figures:
  "set (figures (world_of (finish E iflag d odp ofn ofp fig v))) \<subseteq> insert fig (set (figures v))"
  using finish_cases [of E iflag d odp ofn ofp fig v]
  by (auto simp: figures_def leave_open_def)

lemma temperatureProbe_figures:
  "set (figures (flow_world (temperatureProbe E simulation odp ofn ofp figSize iflag probe v)))
     \<subseteq> set (figures v) \<union> {fig. fig_size fig = sizeFor figSize probe}"
proof (cases "cutsFound probe")
  case False
  then show ?thesis by (simp add: temperatureProbe_skip)
next
  case True
  from temperatureProbe_cases [OF True, of E simulation odp ofn ofp figSize iflag v]
  show ?thesis
  proof (elim disjE exE conjE)
    fix fig
    let ?f = "finish E iflag (outFilePath simulation (temperatureName probe)) odp ofn ofp fig v"
    assume sz: "fig_size fig = sizeFor figSize probe"
      and "temperatureProbe E simulation odp ofn ofp figSize iflag probe v =
              (case ?f of Returned w' \<Rightarrow> Next (Some (sizeFor figSize probe)) w'
                        | Raised e w' \<Rightarrow> Raise e w')"
    then have "flow_world (temperatureProbe E simulation odp ofn ofp figSize iflag probe v) =
               world_of ?f"
      by (cases ?f) simp_all
    then show ?thesis
      using finish_figures [of E iflag "outFilePath simulation (temperatureName probe)"
                               odp ofn ofp fig v] sz
      by auto
  qed (auto simp: leave_open_def figures_def)
qed

lemma temperatureProbe_Next:
  assumes "temperatureProbe E simulation odp ofn ofp figSize iflag probe v = Next figSize' v'"
  shows "figSize' = Some (sizeFor figSize probe)"
proof (cases "cutsFound probe")
  case False
  then show ?thesis using assms by (simp add: temperatureProbe_skip)
next
  case True
  from temperatureProbe_cases [OF True, of E simulation odp ofn ofp figSize iflag v]
  show ?thesis
  proof (elim disjE exE conjE)
    fix fig
    let ?f = "finish E iflag (outFilePath simulation (temperatureName probe)) odp ofn ofp fig v"
    assume "temperatureProbe E simulation odp ofn ofp figSize iflag probe v =
              (case ?f of Returned w' \<Rightarrow> Next (Some (sizeFor figSize probe)) w'
                        | Raised e w' \<Rightarrow> Raise e w')"
    then show ?thesis using assms by (cases ?f) simp_all
  qed (use assms in simp_all)
qed

subsection \<open>Passes that return\<close>

lemma finish_Returned:
  assumes "finish E iflag d odp ofn ofp fig v = Returned v'"
  shows "(interactive E iflag \<and> v' = leave_open fig v) \<or>
         (\<not> interactive E iflag \<and>
            (\<exists>sp. v' = v\<lparr>saved := saved v @ [(sp, fig)], logged := logged v @ [sp]\<rparr>))"
  using finish_cases [of E iflag d odp ofn ofp fig v] assms by auto

lemma densityCut_Returned:
  assumes "densityCut E simulation decades odp figSize iflag probe medium cut' v = Returned v'"
  shows "(\<not> countsOk (probe, medium, cut') \<and> v' = v) \<or>
         (countsOk (probe, medium, cut') \<and>
            (\<exists>d fig. finish E iflag d odp None None fig v = Returned v'))"
proof (cases "countsOk (probe, medium, cut')")
  case False
  then show ?thesis using assms by (simp add: densityCut_skip)
next
  case True
  from densityCut_cases [OF True, of E simulation decades odp figSize iflag v]
  show ?thesis
  proof (elim disjE exE conjE)
    fix fig
    let ?f = "finish E iflag (outFilePath simulation (densityName probe medium cut'))
                odp None None fig v"
    assume "densityCut E simulation decades odp figSize iflag probe medium cut' v = ?f"
    then have "?f = Returned v'" using assms by simp
    then show ?thesis using True by blast
  qed (use assms in simp_all)
qed

lemma temperatureProbe_Next_finish:
  assumes "temperatureProbe E simulation odp ofn ofp figSize iflag probe v = Next figSize' v'"
  shows "\<exists>d fig. finish E iflag d odp ofn ofp fig v = Returned v'"
proof (cases "cutsFound probe")
  case False
  then show ?thesis using assms by (simp add: temperatureProbe_skip)
next
  case True
  from temperatureProbe_cases [OF True, of E simulation odp ofn ofp figSize iflag v]
  show ?thesis
  proof (elim disjE exE conjE)
    fix fig
    let ?f = "finish E iflag (outFilePath simulation (temperatureName probe)) odp ofn ofp fig v"
    assume "temperatureProbe E simulation odp ofn ofp figSize iflag probe v =
              (case ?f of Returned w' \<Rightarrow> Next (Some (sizeFor figSize probe)) w'
                        | Raised e w' \<Rightarrow> Raise e w')"
    then have "?f = Returned v'" using assms by (cases ?f) simp_all
    then show ?thesis by blast
  qed (use assms in simp_all)
qed

lemma temperatureProbe_Return:
  assumes "temperatureProbe E simulation odp ofn ofp figSize iflag probe v = Return v'"
  shows "v' = v"
proof (cases "cutsFound probe")
  case False
  then show ?thesis using assms by (simp add: temperatureProbe_skip)
next
  case True
  then show ?thesis using temperatureProbe_not_Return [OF True] assms by blast
qed

subsection \<open>Passes that raise\<close>

lemma mapE_first_failure:
  assumes "xs = ok @ bad # after" and "\<forall>x\<in>set ok. \<exists>y. f x = Inr y" and "f bad = Inl e"
  shows "mapE f xs = Inl e"
  using assms
proof (induction ok arbitrary: xs)
  case Nil
  then show ?case by simp
next
  case (Cons a ok)
  obtain y where y: "f a = Inr y" using Cons.prems(2) by auto
  have "mapE f (ok @ bad # after) = Inl e"
    using Cons.IH [OF refl _ Cons.prems(3)] Cons.prems(2) by simp
  then show ?case using Cons.prems(1) y by simp
qed

lemma mapE_cutOf: "\<exists>cuts. mapE cutOf paths = Inr cuts"
proof (induction paths)
  case Nil
  show ?case by simp
next
  case (Cons p paths)
  obtain c where "cutOf p = Inr c" using cutOf_total by blast
  then show ?case using Cons by auto
qed

lemma temperatureLoad_failure:
  assumes "paths = ok @ bad # after" and "\<forall>p\<in>set ok. \<exists>fr. loadFits E p = Inr fr"
    and "loadFits E bad = Inl e"
  shows "temperatureLoad E paths = Inl e"
proof -
  obtain cuts where "mapE cutOf paths = Inr cuts" using mapE_cutOf by blast
  moreover have "mapE (loadFits E) paths = Inl e"
    using assms by (rule mapE_first_failure)
  ultimately show ?thesis by (simp add: temperatureLoad_def bindE_def)
qed

lemma densityLoad_failure:
  assumes "loadFits E tPath = Inl e \<or>
           (\<exists>tFrame. loadFits E tPath = Inr tFrame \<and> loadFits E gPath = Inl e)"
  shows "densityLoad E decades tPath gPath = Inl e"
  using assms by (auto simp: densityLoad_def bindE_def)

lemma finish_save_failure:
  assumes "\<not> interactive E iflag" and "savePath E d [''.pdf'', ''.png''] odp ofn ofp = Inr sp"
    and "savefig E sp fig = Some e"
  shows "finish E iflag d odp ofn ofp fig v = Raised e (leave_open fig v)"
  using assms by (simp add: finish_def)

lemma forEach_raise:
  assumes "forEach body done w = Returned w1" and "body x w1 = Raised e w2"
  shows "forEach body (done @ x # todo) w = Raised e w2"
  using assms by (simp add: forEach_append)

lemma figSizeAfter_Cons:
  "figSizeAfter (Some (sizeFor figSize q)) qs = figSizeAfter figSize (q # qs)"
  by (cases qs) (simp_all add: figSizeAfter_def sizeFor_def)

lemma temperatureLoop_append:
  assumes "\<forall>q\<in>set done. cutsFound q"
  shows "temperatureLoop E simulation odp ofn ofp iflag figSize (done @ rest) w =
           (case temperatureLoop E simulation odp ofn ofp iflag figSize done w of
              Returned w1 \<Rightarrow>
                temperatureLoop E simulation odp ofn ofp iflag (figSizeAfter figSize done) rest w1
            | Raised e w1 \<Rightarrow> Raised e w1)"
  using assms
proof (induction "done" arbitrary: figSize w)
  case Nil
  show ?case by (simp add: figSizeAfter_def)
next
  case (Cons q qs)
  have q: "cutsFound q" and qs: "\<forall>q\<in>set qs. cutsFound q"
    using Cons.prems by simp_all
  show ?case
  proof (cases "temperatureProbe E simulation odp ofn ofp figSize iflag q w")
    case (Next figSize' v)
    then have f: "figSize' = Some (sizeFor figSize q)"
      by (rule temperatureProbe_Next)
    show ?thesis
      using Next Cons.IH [OF qs, of "Some (sizeFor figSize q)" v] unfolding f
      by (simp add: figSizeAfter_Cons split: outcome.splits)
  next
    case (Return v)
    then show ?thesis using temperatureProbe_not_Return [OF q] by blast
  next
    case (Raise e v)
    then show ?thesis by simp
  qed
qed

lemma temperatureLoop_raise:
  assumes "\<forall>q\<in>set done. cutsFound q"
    and "temperatureLoop E simulation odp ofn ofp iflag figSize done w = Returned w1"
    and "temperatureProbe E simulation odp ofn ofp (figSizeAfter figSize done) iflag probe w1 =
           Raise e w2"
  shows "temperatureLoop E simulation odp ofn ofp iflag figSize (done @ probe # todo) w =
           Raised e w2"
  using assms(2,3) by (simp add: temperatureLoop_append [OF assms(1)])

lemma densityCut_load_failure:
  assumes "outFilePaths probe (medium @ ''_t_'' @ cut' @ ''.fits'') = [tPath]"
    and "outFilePaths probe (medium @ ''_g_'' @ cut' @ ''.fits'') = [gPath]"
    and "densityLoad E decades tPath gPath = Inl e"
  shows "densityCut E simulation decades odp figSize iflag probe medium cut' v = Raised e v"
  using assms by (simp add: densityCut_def)

lemma temperatureProbe_load_failure:
  assumes "cutsFound probe"
    and "temperatureLoad E (outFilePaths probe (mediumOf (probe_type probe) @ ''_T_*.fits'')) =
           Inl e"
  shows "temperatureProbe E simulation odp ofn ofp figSize iflag probe v = Raise e v"
  using assms by (auto simp: temperatureProbe_def cutsFound_def numCuts_def Let_def)

lemma temperatureProbe_save_failure:
  assumes "cutsFound probe"
    and "temperatureLoad E (outFilePaths probe (mediumOf (probe_type probe) @ ''_T_*.fits'')) =
           Inr (cuts, frames, grids, Tmax, fr)"
    and "temperatureFigure E (sizeFor figSize probe) cuts frames grids Tmax fr = (fig, None)"
    and "\<not> interactive E iflag"
    and "savePath E (outFilePath simulation (temperatureName probe))
           [''.pdf'', ''.png''] odp ofn ofp = Inr sp"
    and "savefig E sp fig = Some e"
  shows "temperatureProbe E simulation odp ofn ofp figSize iflag probe v =
           Raise e (leave_open fig v)"
proof -
  have s: "(case figSize of
              None \<Rightarrow> (8 * real (length (outFilePaths probe
                                        (mediumOf (probe_type probe) @ ''_T_*.fits''))), 6)
            | Some s \<Rightarrow> s) = sizeFor figSize probe"
    by (simp add: sizeFor_def numCuts_def split: option.splits)
  show ?thesis
    using assms(1-3) finish_save_failure [OF assms(4-6)]
    by (auto simp: temperatureProbe_def cutsFound_def numCuts_def Let_def s temperatureName_def)
qed

subsection \<open>The steps of a pass\<close>

lemma extentOf_eq:
  "extentOf xg yg =
     (if coords xg = [] \<or> coords yg = [] then Inl IndexError
      else Inr (hd (coords xg), last (coords xg), hd (coords yg), last (coords yg)))"
proof -
  have f: "first_item xs = (if xs = [] then Inl IndexError else Inr (hd xs))" for xs :: "real list"
    by (cases xs) (simp_all add: first_item_def)
  have l: "last_item xs = (if xs = [] then Inl IndexError else Inr (last xs))" for xs :: "real list"
    by (cases xs rule: rev_cases) (simp_all add: last_item_def)
  show ?thesis by (simp add: extentOf_def bindE_def f l)
qed

lemma axisLabels_eq:
  "axisLabels E c xg yg =
     (if c = [] then Inl IndexError
      else Inr (hd c # latexForUnit E (gunit xg), last c # latexForUnit E (gunit yg)))"
proof -
  have f: "first_item c = (if c = [] then Inl IndexError else Inr (hd c))"
    by (cases c) (simp_all add: first_item_def)
  have l: "last_item c = (if c = [] then Inl IndexError else Inr (last c))"
    by (cases c rule: rev_cases) (simp_all add: last_item_def)
  show ?thesis by (simp add: axisLabels_def bindE_def f l)
qed

lemma frameMax_eq:
  "frameMax f =
     (if concat (fdata f) = [] then Inl ValueError else Inr (Max (set (concat (fdata f)))))"
proof (cases "concat (fdata f)")
  case Nil
  then show ?thesis by (simp add: frameMax_def del: concat_eq_Nil_conv)
next
  case (Cons v vs)
  then show ?thesis
    using fold_max_Max [of vs v] by (simp add: frameMax_def del: concat_eq_Nil_conv set_simps)
qed

lemma densityRange_eq:
  "densityRange decades tf gf =
     (if concat (fdata tf) = [] \<or> concat (fdata gf) = [] then Inl ValueError
      else case divPow10 (Max (set (concat (fdata tf)) \<union> set (concat (fdata gf)))) decades of
             Inl e \<Rightarrow> Inl e
           | Inr vmin \<Rightarrow>
               Inr (vmin, Max (set (concat (fdata tf)) \<union> set (concat (fdata gf)))))"
proof (cases "concat (fdata tf) = [] \<or> concat (fdata gf) = []")
  case True
  then show ?thesis
    by (auto simp: densityRange_def frameMax_eq bindE_def simp del: concat_eq_Nil_conv)
next
  case False
  then have a: "concat (fdata tf) \<noteq> []" and b: "concat (fdata gf) \<noteq> []"
    by blast+
  have "set (concat (fdata tf)) \<noteq> {}" "set (concat (fdata gf)) \<noteq> {}"
    using a b by (metis set_empty)+
  then have "max (Max (set (concat (fdata tf)))) (Max (set (concat (fdata gf)))) =
             Max (set (concat (fdata tf)) \<union> set (concat (fdata gf)))"
    by (intro Max_Un [symmetric]) simp_all
  then show ?thesis
    using False
    by (simp add: densityRange_def frameMax_eq bindE_def Let_def split: sum.splits
             del: concat_eq_Nil_conv)
qed

lemma densityFigure_drawn:
  assumes "coords xg \<noteq> []" and "coords yg \<noteq> []" and "c \<noteq> []"
  shows "densityFigure E figSize c tImage gImage tUnit xg yg vmin vmax =
           (\<lparr>fig_size = figSize,
             panels =
               [axesOf tImage (colorbarNorm E (chooseNormalizer vmin vmax))
                  (hd (coords xg), last (coords xg), hd (coords yg), last (coords yg))
                  (hd c # latexForUnit E (gunit xg)) (last c # latexForUnit E (gunit yg)),
                axesOf gImage (colorbarNorm E (chooseNormalizer vmin vmax))
                  (hd (coords xg), last (coords xg), hd (coords yg), last (coords yg))
                  (hd c # latexForUnit E (gunit xg)) (last c # latexForUnit E (gunit yg))],
             colorbar_label = Some (''density'' @ latexForUnit E tUnit)\<rparr>, None)"
  using assms by (simp add: densityFigure_def extentOf_eq axisLabels_eq Let_def)

lemma densityCut_drawn:
  assumes files: "densityFiles E probe medium c tf gf xg yg"
    and frames: "concat (fdata tf) \<noteq> []" "concat (fdata gf) \<noteq> []"
    and vmin: "divPow10 (Max (set (concat (fdata tf)) \<union> set (concat (fdata gf)))) decades =
                 Inr vmin"
    and grids: "coords xg \<noteq> []" "coords yg \<noteq> []" and c: "c \<noteq> []"
  shows "densityCut E simulation decades odp figSize iflag probe medium c v =
           finish E iflag (outFilePath simulation (densityName probe medium c)) odp None None
             (fst (densityFigure E figSize c (clip vmin tf) (clip vmin gf) (funit tf) xg yg vmin
                     (Max (set (concat (fdata tf)) \<union> set (concat (fdata gf)))))) v"
proof -
  obtain tPath gPath where
    p: "outFilePaths probe (medium @ ''_t_'' @ c @ ''.fits'') = [tPath]"
       "outFilePaths probe (medium @ ''_g_'' @ c @ ''.fits'') = [gPath]"
    and l: "loadFits E tPath = Inr tf" "loadFits E gPath = Inr gf"
           "getFitsAxes E tPath = Inr (xg, yg)"
    using files unfolding densityFiles_def by blast
  let ?vmax = "Max (set (concat (fdata tf)) \<union> set (concat (fdata gf)))"
  have r: "densityRange decades tf gf = Inr (vmin, ?vmax)"
    using frames vmin by (simp add: densityRange_eq del: concat_eq_Nil_conv)
  have ld: "densityLoad E decades tPath gPath =
              Inr (clip vmin tf, clip vmin gf, funit tf, xg, yg, vmin, ?vmax)"
    by (simp add: densityLoad_def bindE_def l r)
  obtain fig where
    fg: "densityFigure E figSize c (clip vmin tf) (clip vmin gf) (funit tf) xg yg vmin ?vmax =
           (fig, None)"
    using densityFigure_drawn [OF grids c, of E figSize "clip vmin tf" "clip vmin gf" "funit tf"
                                 vmin ?vmax]
    by blast
  show ?thesis
    unfolding densityCut_def Let_def p densityName_def
    by (simp add: ld fg del: set_concat)
qed

subsection \<open>Worlds only grow\<close>

lemma finish_extends:
  "\<exists>s fs. saved (world_of (finish E iflag d odp ofn ofp fig v)) = saved v @ s \<and>
          open_figs (world_of (finish E iflag d odp ofn ofp fig v)) = open_figs v @ fs"
  using finish_cases [of E iflag d odp ofn ofp fig v]
  by (auto simp: leave_open_def)

lemma densityCut_extends:
  "\<exists>s fs. saved (world_of (densityCut E simulation decades odp figSize iflag probe medium c v)) =
            saved v @ s \<and>
          open_figs (world_of (densityCut E simulation decades odp figSize iflag probe medium c v)) =
            open_figs v @ fs"
proof (cases "countsOk (probe, medium, c)")
  case False
  then show ?thesis by (simp add: densityCut_skip)
next
  case True
  from densityCut_cases [OF True, of E simulation decades odp figSize iflag v]
  show ?thesis
  proof (elim disjE exE conjE)
    fix fig
    assume "densityCut E simulation decades odp figSize iflag probe medium c v =
              finish E iflag (outFilePath simulation (densityName probe medium c))
                odp None None fig v"
    then show ?thesis
      using finish_extends [of E iflag "outFilePath simulation (densityName probe medium c)"
                               odp None None fig v]
      by simp
  qed (simp_all add: leave_open_def)
qed

lemma density_extends:
  "\<exists>s fs. saved (world_of (forEach (\<lambda>(probe, medium, c).
              densityCut E simulation decades odp figSize iflag probe medium c) xs v)) =
            saved v @ s \<and>
          open_figs (world_of (forEach (\<lambda>(probe, medium, c).
              densityCut E simulation decades odp figSize iflag probe medium c) xs v)) =
            open_figs v @ fs"
proof (rule forEach_invariant
         [where I = "\<lambda>u::world. \<exists>s fs. saved u = saved v @ s \<and> open_figs u = open_figs v @ fs"])
  show "\<exists>s fs. saved v = saved v @ s \<and> open_figs v = open_figs v @ fs" by simp
  fix x :: "probe \<times> string \<times> string" and u :: world
  assume "\<exists>s fs. saved u = saved v @ s \<and> open_figs u = open_figs v @ fs"
  then obtain s fs where u: "saved u = saved v @ s" "open_figs u = open_figs v @ fs" by blast
  obtain probe medium c where x: "x = (probe, medium, c)" by (cases x) auto
  from densityCut_extends [of E simulation decades odp figSize iflag probe medium c u]
  obtain s' fs' where
    "saved (world_of (densityCut E simulation decades odp figSize iflag probe medium c u)) =
       saved u @ s'"
    "open_figs (world_of (densityCut E simulation decades odp figSize iflag probe medium c u)) =
       open_figs u @ fs'"
    by blast
  then show "\<exists>s fs.
       saved (world_of ((\<lambda>(probe, medium, c).
          densityCut E simulation decades odp figSize iflag probe medium c) x u)) = saved v @ s \<and>
       open_figs (world_of ((\<lambda>(probe, medium, c).
          densityCut E simulation decades odp figSize iflag probe medium c) x u)) =
         open_figs v @ fs"
    using u by (simp add: x)
qed

lemma density_interactive_saved:
  assumes "interactive E iflag"
  shows "saved (world_of (forEach (\<lambda>(probe, medium, c).
              densityCut E simulation decades odp figSize iflag probe medium c) xs v)) = saved v"
proof (rule forEach_invariant [where I = "\<lambda>u::world. saved u = saved v"])
  show "saved v = saved v" ..
  fix x :: "probe \<times> string \<times> string" and u :: world
  assume u: "saved u = saved v"
  obtain probe medium c where x: "x = (probe, medium, c)" by (cases x) auto
  show "saved (world_of ((\<lambda>(probe, medium, c).
          densityCut E simulation decades odp figSize iflag probe medium c) x u)) = saved v"
    using densityCut_saved [of E simulation decades odp figSize iflag probe medium c u] assms u
    by (auto simp: x)
qed

lemma density_pass:
  assumes "densityJobs simulation = done @ (probe, medium, c) # todo"
    and "forEach (\<lambda>(probe, medium, c).
           densityCut E simulation decades odp figSize iflag probe medium c) done w = Returned w1"
  shows "plotMediaDensityCuts E simulation decades odp figSize iflag w =
           (case densityCut E simulation decades odp figSize iflag probe medium c w1 of
              Returned v \<Rightarrow>
                forEach (\<lambda>(probe, medium, c).
                  densityCut E simulation decades odp figSize iflag probe medium c) todo v
            | Raised e v \<Rightarrow> Raised e v)"
    and "c \<in> set [''xy'', ''xz'', ''yz'']"
proof -
  show "plotMediaDensityCuts E simulation decades odp figSize iflag w =
           (case densityCut E simulation decades odp figSize iflag probe medium c w1 of
              Returned v \<Rightarrow>
                forEach (\<lambda>(probe, medium, c).
                  densityCut E simulation decades odp figSize iflag probe medium c) todo v
            | Raised e v \<Rightarrow> Raised e v)"
    unfolding plotMediaDensityCuts_jobs assms(1)
    by (simp add: forEach_append assms(2))
  have "(probe, medium, c) \<in> set (densityJobs simulation)"
    unfolding assms(1) by simp
  then show "c \<in> set [''xy'', ''xz'', ''yz'']"
    unfolding densityJobs_member by blast
qed


lemma is_log_colorbarNorm: "is_log (colorbarNorm E n) = is_log n"
  by (cases n) (simp_all split: prod.splits)

lemma divPow10_below: "decades < 309 \<Longrightarrow> \<exists>vmin. divPow10 vmax decades = Inr vmin"
  by (simp add: divPow10_def)


lemma density_pass_drawn:
  assumes jobs: "densityJobs simulation = done @ (probe, medium, c) # todo"
    and earlier: "forEach (\<lambda>(probe, medium, c).
           densityCut E simulation decades odp figSize iflag probe medium c) done w = Returned w1"
    and files: "densityFiles E probe medium c tf gf xg yg"
    and frames: "concat (fdata tf) \<noteq> []" "concat (fdata gf) \<noteq> []"
    and vmin: "divPow10 (Max (set (concat (fdata tf)) \<union> set (concat (fdata gf)))) decades =
                 Inr vmin"
    and grids: "coords xg \<noteq> []" "coords yg \<noteq> []"
    and fig: "fig = fst (densityFigure E figSize c (clip vmin tf) (clip vmin gf) (funit tf) xg yg
                      vmin (Max (set (concat (fdata tf)) \<union> set (concat (fdata gf)))))"
  shows "interactive E iflag \<Longrightarrow>
           \<exists>rest. open_figs (world_of (plotMediaDensityCuts E simulation decades odp figSize iflag w)) =
                    open_figs w1 @ fig # rest \<and>
                  saved (world_of (plotMediaDensityCuts E simulation decades odp figSize iflag w)) =
                    saved w1"
    and "\<not> interactive E iflag \<Longrightarrow>
         savePath E (outFilePath simulation (densityName probe medium c))
           [''.pdf'', ''.png''] odp None None = Inr sp \<Longrightarrow>
         savefig E sp fig = None \<Longrightarrow>
           \<exists>rest. saved (world_of (plotMediaDensityCuts E simulation decades odp figSize iflag w)) =
                    saved w1 @ (sp, fig) # rest"
proof -
  let ?body = "\<lambda>(probe, medium, c).
           densityCut E simulation decades odp figSize iflag probe medium c"
  let ?call = "plotMediaDensityCuts E simulation decades odp figSize iflag w"
  note pass = density_pass [OF jobs earlier]
  have c: "c \<noteq> []" using pass(2) by auto
  have cut: "densityCut E simulation decades odp figSize iflag probe medium c w1 =
               finish E iflag (outFilePath simulation (densityName probe medium c)) odp None None
                 fig w1"
    unfolding fig by (rule densityCut_drawn [OF files frames vmin grids c])
  {
    assume i: "interactive E iflag"
    then have "?call = forEach ?body todo (leave_open fig w1)"
      using pass(1) cut by (simp add: finish_def)
    moreover obtain s fs where
      "open_figs (world_of (forEach ?body todo (leave_open fig w1))) =
         open_figs (leave_open fig w1) @ fs"
      using density_extends [of E simulation decades odp figSize iflag todo "leave_open fig w1"]
      by blast
    moreover have "saved (world_of (forEach ?body todo (leave_open fig w1))) =
                     saved (leave_open fig w1)"
      by (rule density_interactive_saved [OF i])
    ultimately show "\<exists>rest. open_figs (world_of ?call) = open_figs w1 @ fig # rest \<and>
                            saved (world_of ?call) = saved w1"
      by (simp add: leave_open_def)
  }
  {
    assume "\<not> interactive E iflag"
      and "savePath E (outFilePath simulation (densityName probe medium c))
             [''.pdf'', ''.png''] odp None None = Inr sp"
      and "savefig E sp fig = None"
    then have "?call = forEach ?body todo
                 (w1\<lparr>saved := saved w1 @ [(sp, fig)], logged := logged w1 @ [sp]\<rparr>)"
      using pass(1) cut by (simp add: finish_def)
    moreover obtain s fs where
      "saved (world_of (forEach ?body todo
                 (w1\<lparr>saved := saved w1 @ [(sp, fig)], logged := logged w1 @ [sp]\<rparr>))) =
         saved (w1\<lparr>saved := saved w1 @ [(sp, fig)], logged := logged w1 @ [sp]\<rparr>) @ s"
      using density_extends [of E simulation decades odp figSize iflag todo
              "w1\<lparr>saved := saved w1 @ [(sp, fig)], logged := logged w1 @ [sp]\<rparr>"]
      by blast
    ultimately show "\<exists>rest. saved (world_of ?call) = saved w1 @ (sp, fig) # rest"
      by simp
  }
qed

lemma density_pass_drawnAfter:
  assumes jobs: "densityJobs simulation = done @ (probe, medium, c) # todo"
    and earlier: "forEach (\<lambda>(probe, medium, c).
           densityCut E simulation decades odp figSize iflag probe medium c) done w = Returned w1"
    and files: "densityFiles E probe medium c tf gf xg yg"
    and frames: "concat (fdata tf) \<noteq> []" "concat (fdata gf) \<noteq> []"
    and vmin: "divPow10 (Max (set (concat (fdata tf)) \<union> set (concat (fdata gf)))) decades =
                 Inr vmin"
    and grids: "coords xg \<noteq> []" "coords yg \<noteq> []"
    and mode: "interactive E iflag \<or>
               (\<exists>sp. savePath E (outFilePath simulation (densityName probe medium c))
                        [''.pdf'', ''.png''] odp None None = Inr sp \<and>
                     (\<forall>fig. savefig E sp fig = None))"
  shows "\<exists>rest. drawnAfter w1
                  (world_of (plotMediaDensityCuts E simulation decades odp figSize iflag w)) =
           fst (densityFigure E figSize c (clip vmin tf) (clip vmin gf) (funit tf) xg yg
                  vmin (Max (set (concat (fdata tf)) \<union> set (concat (fdata gf))))) # rest"
proof (cases "interactive E iflag")
  case True
  from density_pass_drawn(1) [OF jobs earlier files frames vmin grids refl True]
  show ?thesis by (auto simp: drawnAfter_def)
next
  case False
  then obtain sp where
    "savePath E (outFilePath simulation (densityName probe medium c))
       [''.pdf'', ''.png''] odp None None = Inr sp" "\<forall>fig. savefig E sp fig = None"
    using mode by blast
  from density_pass_drawn(2) [OF jobs earlier files frames vmin grids refl False this(1)] this(2)
  show ?thesis by (auto simp: drawnAfter_def)
qed


lemma two_panels:
  assumes "length ps = 2" and "\<forall>p\<in>set ps. f p = a"
  shows "map f ps = [a, a]"
  using assms by (cases ps; cases "tl ps") auto

section \<open>The claims\<close>

text \<open>
  C7. \<open>pts()\<close> returns the top-level directory of the repository: the module file is
  \<^verbatim>\<open>utils/path.py\<close> below that directory, and the parent of its parent is the directory
  itself, absolute as the path of the module file is.
\<close>

theorem pts_is_repository_root:
  assumes "is_absolute repo"
  shows "pts (joinpath repo [''utils'', ''path.py'']) = repo \<and>
         is_absolute (pts (joinpath repo [''utils'', ''path.py'']))"
  using assms by (simp add: pts_def parent_def joinpath_def butlast_append)

theorem pts_is_repository_root_witness:
  "is_absolute exampleRepo \<and>
   pts \<lparr>is_absolute = True, components = [''home'', ''user'', ''pts'', ''utils'', ''path.py'']\<rparr> =
     \<lparr>is_absolute = True, components = [''home'', ''user'', ''pts'']\<rparr>"
  using pts_is_repository_root [of exampleRepo] by (simp add: exampleRepo_def joinpath_def)

text \<open>
  C5. When no probe of the simulation has one of the types a function looks for, the
  function returns and leaves the world as it was: no file, no figure, no log entry.
\<close>

theorem no_matching_probes_no_output:
  "((\<forall>probe\<in>set (probes simulation).
        probe_type probe \<noteq> ''DefaultMediaDensityCutsProbe'' \<and>
        probe_type probe \<noteq> ''PlanarMediaDensityCutsProbe'') \<longrightarrow>
      plotMediaDensityCuts E simulation decades outDirPath figSize iflag w = Returned w) \<and>
   ((\<forall>probe\<in>set (probes simulation).
        probe_type probe \<notin>
          {''DefaultDustTemperatureCutsProbe'', ''DefaultGasTemperatureCutsProbe'',
           ''DefaultElectronTemperatureCutsProbe'', ''PlanarDustTemperatureCutsProbe'',
           ''PlanarGasTemperatureCutsProbe'', ''PlanarElectronTemperatureCutsProbe''}) \<longrightarrow>
      plotTemperatureCuts E simulation outDirPath outFileName outFilePath' tFigSize iflag w =
        Returned w)"
proof (intro conjI impI)
  assume "\<forall>probe\<in>set (probes simulation).
        probe_type probe \<noteq> ''DefaultMediaDensityCutsProbe'' \<and>
        probe_type probe \<noteq> ''PlanarMediaDensityCutsProbe''"
  then have "densityProbes simulation = []"
    by (simp add: densityProbes_def filter_empty_conv)
  then show "plotMediaDensityCuts E simulation decades outDirPath figSize iflag w = Returned w"
    by (simp add: plotMediaDensityCuts_def)
next
  assume "\<forall>probe\<in>set (probes simulation).
        probe_type probe \<notin>
          {''DefaultDustTemperatureCutsProbe'', ''DefaultGasTemperatureCutsProbe'',
           ''DefaultElectronTemperatureCutsProbe'', ''PlanarDustTemperatureCutsProbe'',
           ''PlanarGasTemperatureCutsProbe'', ''PlanarElectronTemperatureCutsProbe''}"
  then have "temperatureProbes simulation = []"
    by (simp add: temperatureProbes_def probetypes_eq filter_empty_conv)
  then show "plotTemperatureCuts E simulation outDirPath outFileName outFilePath' tFigSize iflag w =
        Returned w"
    by (simp add: plotTemperatureCuts_def)
qed

theorem no_matching_probes_no_output_witness:
  "plotMediaDensityCuts Eok (simOf [otherProbe, tmpProbe]) 5 None (18, 6) None w0 = Returned w0 \<and>
   plotTemperatureCuts Eok (simOf [otherProbe, densProbe]) None None None None None w0 = Returned w0"
  using no_matching_probes_no_output
          [of "simOf [otherProbe, tmpProbe]" Eok 5 None "(18, 6)" None w0]
        no_matching_probes_no_output
          [of "simOf [otherProbe, densProbe]" Eok 5 None "(18, 6)" None w0 None None None]
  by (simp add: simOf_def otherProbe_def tmpProbe_def densProbe_def)

text \<open>
  C9. When the number of files found for a probe is not 1, 2 or 3, \<open>plotTemperatureCuts\<close>
  does what it does on the probes before that one alone: the probes after it are never
  looked at, whatever files they have.
\<close>

theorem temperature_return_skips_later_probes:
  assumes "temperatureProbes simulation = before @ probe # later"
    and "numCuts probe \<notin> {1, 2, 3}"
  shows "plotTemperatureCuts E simulation odp ofn ofp figSize iflag w =
         plotTemperatureCuts E (simulation\<lparr>probes := before\<rparr>) odp ofn ofp figSize iflag w"
proof -
  have "set before \<subseteq> set (temperatureProbes simulation)"
    using assms(1) by auto
  then have "\<forall>p\<in>set before. probe_type p \<in> set probetypes"
    by (auto simp: temperatureProbes_def)
  then have before: "temperatureProbes (simulation\<lparr>probes := before\<rparr>) = before"
    by (simp add: temperatureProbes_def)
  have "\<not> cutsFound probe"
    using assms(2) by (simp add: cutsFound_def)
  then have "takeWhile cutsFound (before @ probe # later) = takeWhile cutsFound before"
    by (rule takeWhile_stop)
  then have "temperatureLoop E simulation odp ofn ofp iflag figSize (before @ probe # later) w =
             temperatureLoop E simulation odp ofn ofp iflag figSize before w"
    using temperatureLoop_takeWhile [of E simulation odp ofn ofp iflag figSize "before @ probe # later" w]
          temperatureLoop_takeWhile [of E simulation odp ofn ofp iflag figSize before w]
    by simp
  then show ?thesis
    by (simp add: plotTemperatureCuts_def assms(1) before temperatureLoop_probes_update)
qed

theorem temperature_return_skips_later_probes_witness:
  "temperatureProbes (simOf [otherProbe, tmpProbe, gasProbe, elecProbe]) =
     [tmpProbe] @ gasProbe # [elecProbe] \<and>
   numCuts gasProbe \<notin> {1, 2, 3} \<and> numCuts elecProbe = 3 \<and>
   map fst (saved (world_of (plotTemperatureCuts Eok
       (simOf [otherProbe, tmpProbe, gasProbe, elecProbe]) None None None None None w0))) =
     [outPath ''tmp_dust_T.pdf'']"
proof -
  have p: "temperatureProbes (simOf [otherProbe, tmpProbe, gasProbe, elecProbe]) =
             [tmpProbe] @ gasProbe # [elecProbe]"
    by (simp add: temperatureProbes_def probetypes_eq example_defs)
  have n: "numCuts gasProbe \<notin> {1, 2, 3}"
    by (simp add: numCuts_def example_defs)
  have m: "numCuts elecProbe = 3"
    by (simp add: numCuts_def mediumOf_def example_defs)
  have "map fst (saved (world_of (plotTemperatureCuts Eok
          ((simOf [otherProbe, tmpProbe, gasProbe, elecProbe])\<lparr>probes := [tmpProbe]\<rparr>)
          None None None None None w0))) = [outPath ''tmp_dust_T.pdf'']"
    by (simp add: model_defs example_defs)
  then show ?thesis
    using temperature_return_skips_later_probes [OF p n, of Eok None None None None None w0] p n m
    by simp
qed

text \<open>
  C1, as the code has it. A combination of probe, medium and cut plane for which the
  theoretical or the gridded file is not found exactly once is skipped:
  \<open>plotMediaDensityCuts\<close> does what it does on the other combinations alone. At the first
  probe with fewer than one or more than three temperature cuts \<open>plotTemperatureCuts\<close>
  returns: it does what it does on the probes before that one alone. What was written for
  other cuts or earlier probes stays.
\<close>

theorem count_mismatch_skips:
  "plotMediaDensityCuts E simulation decades odp figSize iflag w =
     forEach (\<lambda>(probe, medium, cut').
                densityCut E simulation decades odp figSize iflag probe medium cut')
       (filter countsOk (densityJobs simulation)) w \<and>
   plotTemperatureCuts E simulation odp ofn ofp tFigSize iflag w =
     temperatureLoop E simulation odp ofn ofp iflag tFigSize
       (takeWhile cutsFound (temperatureProbes simulation)) w \<and>
   (\<not> countsOk (probe, medium, cut') \<longrightarrow>
      densityCut E simulation decades odp figSize iflag probe medium cut' w = Returned w) \<and>
   (\<not> cutsFound tprobe \<longrightarrow>
      temperatureLoop E simulation odp ofn ofp iflag tFigSize (tprobe # rest) w = Returned w)"
proof (intro conjI impI)
  show "plotMediaDensityCuts E simulation decades odp figSize iflag w =
     forEach (\<lambda>(probe, medium, cut').
                densityCut E simulation decades odp figSize iflag probe medium cut')
       (filter countsOk (densityJobs simulation)) w"
    unfolding plotMediaDensityCuts_jobs
    by (rule forEach_filter [symmetric]) (auto simp: densityCut_skip)
  show "plotTemperatureCuts E simulation odp ofn ofp tFigSize iflag w =
     temperatureLoop E simulation odp ofn ofp iflag tFigSize
       (takeWhile cutsFound (temperatureProbes simulation)) w"
    unfolding plotTemperatureCuts_def by (rule temperatureLoop_takeWhile)
next
  assume "\<not> countsOk (probe, medium, cut')"
  then show "densityCut E simulation decades odp figSize iflag probe medium cut' w = Returned w"
    by (rule densityCut_skip)
next
  assume "\<not> cutsFound tprobe"
  then show "temperatureLoop E simulation odp ofn ofp iflag tFigSize (tprobe # rest) w =
               Returned w"
    by (simp add: temperatureProbe_skip)
qed

theorem count_mismatch_skips_witness:
  "\<not> countsOk (densProbe, ''dust'', ''xz'') \<and>
   densityCut Eok (simOf [densProbe]) 5 None (18, 6) None densProbe ''dust'' ''xz'' w0 =
     Returned w0 \<and>
   \<not> cutsFound gasProbe \<and>
   temperatureLoop Eok (simOf [gasProbe, elecProbe]) None None None None None
     (gasProbe # [elecProbe]) w0 = Returned w0 \<and>
   filter countsOk (densityJobs (simOf [densProbe])) = [(densProbe, ''dust'', ''xy'')] \<and>
   takeWhile cutsFound (temperatureProbes (simOf [tmpProbe, gasProbe, elecProbe])) = [tmpProbe]"
proof -
  have a: "\<not> countsOk (densProbe, ''dust'', ''xz'')"
    by (simp add: countsOk_def example_defs)
  have b: "\<not> cutsFound gasProbe"
    by (simp add: cutsFound_def numCuts_def example_defs)
  have c: "filter countsOk (densityJobs (simOf [densProbe])) = [(densProbe, ''dust'', ''xy'')]"
    by (simp add: densityJobs_def densityProbes_def countsOk_def example_defs)
  have d: "takeWhile cutsFound (temperatureProbes (simOf [tmpProbe, gasProbe, elecProbe])) =
             [tmpProbe]"
    by (simp add: temperatureProbes_def probetypes_eq cutsFound_def numCuts_def mediumOf_def
          example_defs)
  show ?thesis
    using count_mismatch_skips
            [of Eok "simOf [densProbe]" 5 None "(18, 6)" None w0 None None None
                densProbe "''dust''" "''xz''" gasProbe "[elecProbe]"]
          count_mismatch_skips
            [of Eok "simOf [gasProbe, elecProbe]" 5 None "(18, 6)" None w0 None None None
                densProbe "''dust''" "''xz''" gasProbe "[elecProbe]"]
          a b c d
    by simp
qed

theorem count_mismatch_counterexample:
  "length (outFilePaths densProbe ''dust_g_xz.fits'') = 0 \<and>
   map fst (saved (world_of
      (plotMediaDensityCuts Eok (simOf [densProbe]) 5 None (18, 6) None w0))) =
     [outPath ''dns_dust_xy.pdf''] \<and>
   length (outFilePaths gasProbe ''gas_T_*.fits'') = 0 \<and>
   map fst (saved (world_of
      (plotTemperatureCuts Eok (simOf [tmpProbe, gasProbe]) None None None None None w0))) =
     [outPath ''tmp_dust_T.pdf'']"
  by (simp add: model_defs example_defs)

text \<open>
  C10. Called without \<open>figSize\<close>, \<open>plotTemperatureCuts\<close> gives every figure it makes the
  size \<open>(8 * numcuts, 6)\<close> of the first probe it processes, whatever the number of cuts of
  the probes that follow.
\<close>

theorem figSize_from_first_probe:
  assumes "temperatureProbes simulation = probe # rest"
  shows "\<forall>fig\<in>set (figures (world_of
             (plotTemperatureCuts E simulation odp ofn ofp None iflag w))) - set (figures w).
           fig_size fig = (8 * real (numCuts probe), 6)"
proof -
  let ?sz = "(8 * real (numCuts probe), 6::real)"
  let ?I = "\<lambda>v::world. set (figures v) \<subseteq> set (figures w) \<union> {fig. fig_size fig = ?sz}"
  let ?r = "temperatureProbe E simulation odp ofn ofp None iflag probe w"
  have s: "sizeFor None probe = ?sz"
    by (simp add: sizeFor_def)
  have first: "?I (flow_world ?r)"
    using temperatureProbe_figures [of E simulation odp ofn ofp None iflag probe w]
    unfolding s .
  have "?I (world_of (temperatureLoop E simulation odp ofn ofp iflag None (probe # rest) w))"
  proof (cases ?r)
    case (Next figSize' v')
    then have f: "figSize' = Some ?sz"
      using temperatureProbe_Next [of E simulation odp ofn ofp None iflag probe w figSize' v'] s
      by simp
    have "?I (world_of (temperatureLoop E simulation odp ofn ofp iflag (Some ?sz) rest v'))"
    proof (rule temperatureLoop_invariant [where J = "\<lambda>fs. fs = Some ?sz"])
      show "?I v'" using first Next by simp
      show "Some ?sz = Some ?sz" ..
      fix fs p v
      assume fs: "fs = Some ?sz" and v: "?I v"
      have "sizeFor fs p = ?sz"
        using fs by (simp add: sizeFor_def)
      then show "?I (flow_world (temperatureProbe E simulation odp ofn ofp fs iflag p v)) \<and>
                 (\<forall>figSize' v'. temperatureProbe E simulation odp ofn ofp fs iflag p v =
                     Next figSize' v' \<longrightarrow> figSize' = Some ?sz)"
        using temperatureProbe_figures [of E simulation odp ofn ofp fs iflag p v] v
              temperatureProbe_Next [of E simulation odp ofn ofp fs iflag p v]
        by auto
    qed
    then show ?thesis using Next f by simp
  next
    case (Return v')
    then show ?thesis using first by simp
  next
    case (Raise e v')
    then show ?thesis using first by simp
  qed
  then show ?thesis
    unfolding plotTemperatureCuts_def assms by auto
qed

theorem figSize_from_first_probe_witness:
  "temperatureProbes (simOf [tmpProbe, elecProbe]) = tmpProbe # [elecProbe] \<and>
   numCuts tmpProbe = 1 \<and> numCuts elecProbe = 3 \<and>
   map fig_size (figures (world_of
     (plotTemperatureCuts Eok (simOf [tmpProbe, elecProbe]) None None None None None w0))) =
     [(8, 6), (8, 6)] \<and>
   map (length \<circ> panels) (figures (world_of
     (plotTemperatureCuts Eok (simOf [tmpProbe, elecProbe]) None None None None None w0))) =
     [1, 3]"
proof -
  have p: "temperatureProbes (simOf [tmpProbe, elecProbe]) = tmpProbe # [elecProbe]"
    by (simp add: temperatureProbes_def probetypes_eq example_defs)
  have n: "numCuts tmpProbe = 1" "numCuts elecProbe = 3"
    by (simp_all add: numCuts_def mediumOf_def example_defs)
  have "map (length \<circ> panels) (figures (world_of
     (plotTemperatureCuts Eok (simOf [tmpProbe, elecProbe]) None None None None None w0))) =
     [1, 3]"
    by (simp add: model_defs example_defs figures_def)
  moreover have "map fig_size (figures (world_of
     (plotTemperatureCuts Eok (simOf [tmpProbe, elecProbe]) None None None None None w0))) =
     [(8, 6), (8, 6)]"
    by (simp add: model_defs example_defs figures_def)
  ultimately show ?thesis
    using figSize_from_first_probe [OF p, of Eok None None None None w0] p n
    by simp
qed

text \<open>
  C6. In interactive mode neither function writes a file, whether it returns or raises,
  and every figure it has drawn when it returns is left open. Outside interactive mode
  every figure drawn is written to a file and closed.
\<close>

theorem interactive_mode_saves_nothing:
  "(interactive E iflag \<longrightarrow>
      saved (world_of (plotMediaDensityCuts E simulation decades odp figSize iflag w)) = saved w \<and>
      saved (world_of (plotTemperatureCuts E simulation odp ofn ofp tFigSize iflag w)) = saved w) \<and>
   (\<forall>w'. plotMediaDensityCuts E simulation decades odp figSize iflag w = Returned w' \<longrightarrow>
      (if interactive E iflag
       then length (open_figs w') =
              length (open_figs w) + length (filter countsOk (densityJobs simulation))
       else open_figs w' = open_figs w \<and>
            length (saved w') =
              length (saved w) + length (filter countsOk (densityJobs simulation)))) \<and>
   (\<forall>w'. plotTemperatureCuts E simulation odp ofn ofp tFigSize iflag w = Returned w' \<longrightarrow>
      (if interactive E iflag
       then length (open_figs w') =
              length (open_figs w) + length (takeWhile cutsFound (temperatureProbes simulation))
       else open_figs w' = open_figs w \<and>
            length (saved w') =
              length (saved w) + length (takeWhile cutsFound (temperatureProbes simulation))))"
proof (intro conjI impI allI)
  assume i: "interactive E iflag"
  let ?I = "\<lambda>v::world. saved v = saved w"
  have "?I (world_of (forEach (\<lambda>(probe, medium, cut').
                densityCut E simulation decades odp figSize iflag probe medium cut')
       (densityJobs simulation) w))"
  proof (rule forEach_invariant)
    show "?I w" ..
    fix x :: "probe \<times> string \<times> string" and v :: world
    assume v: "?I v"
    obtain probe medium cut' where xe: "x = (probe, medium, cut')"
      by (cases x) auto
    show "?I (world_of ((\<lambda>(probe, medium, cut').
                densityCut E simulation decades odp figSize iflag probe medium cut') x v))"
      using densityCut_saved [of E simulation decades odp figSize iflag probe medium cut' v] i v
      by (auto simp: xe)
  qed
  then show "saved (world_of (plotMediaDensityCuts E simulation decades odp figSize iflag w)) =
               saved w"
    by (simp only: plotMediaDensityCuts_jobs)
  have "?I (world_of (temperatureLoop E simulation odp ofn ofp iflag tFigSize
                        (temperatureProbes simulation) w))"
  proof (rule temperatureLoop_invariant [where J = "\<lambda>_. True"])
    show "?I w" ..
    show True ..
    fix fs p v
    assume v: "?I v"
    show "?I (flow_world (temperatureProbe E simulation odp ofn ofp fs iflag p v)) \<and>
          (\<forall>figSize' v'. temperatureProbe E simulation odp ofn ofp fs iflag p v =
                 Next figSize' v' \<longrightarrow> True)"
      using temperatureProbe_saved [of E simulation odp ofn ofp fs iflag p v] i v
      by auto
  qed
  then show "saved (world_of (plotTemperatureCuts E simulation odp ofn ofp tFigSize iflag w)) =
               saved w"
    by (simp only: plotTemperatureCuts_def)
next
  fix w'
  assume r: "plotMediaDensityCuts E simulation decades odp figSize iflag w = Returned w'"
  let ?body = "\<lambda>(probe, medium, cut').
                densityCut E simulation decades odp figSize iflag probe medium cut'"
  have r': "forEach ?body (densityJobs simulation) w = Returned w'"
    using r by (simp only: plotMediaDensityCuts_jobs)
  have step: "(if interactive E iflag
               then length (open_figs v') = length (open_figs v) + (if countsOk x then 1 else 0)
               else open_figs v' = open_figs v \<and>
                    length (saved v') = length (saved v) + (if countsOk x then 1 else 0))"
    if "?body x v = Returned v'" for x v v'
  proof -
    obtain probe medium cut' where xe: "x = (probe, medium, cut')"
      by (cases x) auto
    have d: "densityCut E simulation decades odp figSize iflag probe medium cut' v = Returned v'"
      using that by (simp add: xe)
    from densityCut_Returned [OF d] show ?thesis
    proof (elim disjE conjE exE)
      assume "\<not> countsOk (probe, medium, cut')" "v' = v"
      then show ?thesis by (simp add: xe)
    next
      fix d' fig
      assume ok: "countsOk (probe, medium, cut')"
        and f: "finish E iflag d' odp None None fig v = Returned v'"
      show ?thesis
        using finish_Returned [OF f] ok by (auto simp: xe leave_open_def)
    qed
  qed
  show "if interactive E iflag
       then length (open_figs w') =
              length (open_figs w) + length (filter countsOk (densityJobs simulation))
       else open_figs w' = open_figs w \<and>
            length (saved w') =
              length (saved w) + length (filter countsOk (densityJobs simulation))"
  proof (cases "interactive E iflag")
    case True
    have "length (open_figs w') =
            length (open_figs w) + length (filter countsOk (densityJobs simulation))"
      by (rule forEach_returned [where f = "\<lambda>v. length (open_figs v)", OF _ r'])
         (use step True in auto)
    then show ?thesis using True by simp
  next
    case False
    have "length (saved w') =
            length (saved w) + length (filter countsOk (densityJobs simulation))"
      by (rule forEach_returned [where f = "\<lambda>v. length (saved v)", OF _ r'])
         (use step False in auto)
    moreover have "open_figs w' = open_figs w"
      by (rule forEach_returned_same [where f = open_figs, OF _ r'])
         (use step False in auto)
    ultimately show ?thesis using False by simp
  qed
next
  fix w'
  assume r: "plotTemperatureCuts E simulation odp ofn ofp tFigSize iflag w = Returned w'"
  then have r': "temperatureLoop E simulation odp ofn ofp iflag tFigSize
                   (temperatureProbes simulation) w = Returned w'"
    by (simp only: plotTemperatureCuts_def)
  have step: "(if interactive E iflag
               then length (open_figs v') = length (open_figs v) + 1 \<and> saved v' = saved v
               else open_figs v' = open_figs v \<and> length (saved v') = length (saved v) + 1)"
    if "temperatureProbe E simulation odp ofn ofp fs iflag p v = Next fs' v'" for fs p v fs' v'
  proof -
    from temperatureProbe_Next_finish [OF that] obtain d fig
      where f: "finish E iflag d odp ofn ofp fig v = Returned v'" by blast
    show ?thesis using finish_Returned [OF f] by (auto simp: leave_open_def)
  qed
  show "if interactive E iflag
       then length (open_figs w') =
              length (open_figs w) + length (takeWhile cutsFound (temperatureProbes simulation))
       else open_figs w' = open_figs w \<and>
            length (saved w') =
              length (saved w) + length (takeWhile cutsFound (temperatureProbes simulation))"
  proof (cases "interactive E iflag")
    case True
    have "length (open_figs w') =
            length (open_figs w) + length (takeWhile cutsFound (temperatureProbes simulation))"
      by (rule temperatureLoop_returned [where f = "\<lambda>v. length (open_figs v)", OF _ r'])
         (use step True in auto)
    then show ?thesis using True by simp
  next
    case False
    have "length (saved w') =
            length (saved w) + length (takeWhile cutsFound (temperatureProbes simulation))"
      by (rule temperatureLoop_returned [where f = "\<lambda>v. length (saved v)", OF _ r'])
         (use step False in auto)
    moreover have "open_figs w' = open_figs w"
    proof (rule temperatureLoop_returned_same [where f = open_figs, OF _ _ r'])
      show "open_figs v' = open_figs v"
        if "temperatureProbe E simulation odp ofn ofp fs iflag p v = Next fs' v'"
        for fs p v fs' v'
        using step [OF that] False by simp
      show "open_figs v' = open_figs v"
        if "temperatureProbe E simulation odp ofn ofp fs iflag p v = Return v'"
        for fs p v v'
        using temperatureProbe_Return [OF that] by simp
    qed
    ultimately show ?thesis using False by simp
  qed
qed

theorem interactive_mode_saves_nothing_witness:
  "interactive Eok (Some True) \<and> \<not> interactive Eok None \<and>
   saved (world_of (plotMediaDensityCuts Eok (simOf [densProbe, tmpProbe, elecProbe])
                      5 None (18, 6) (Some True) w0)) = [] \<and>
   length (open_figs (world_of (plotMediaDensityCuts Eok (simOf [densProbe, tmpProbe, elecProbe])
                      5 None (18, 6) (Some True) w0))) = 1 \<and>
   saved (world_of (plotTemperatureCuts Eok (simOf [densProbe, tmpProbe, elecProbe])
                      None None None None (Some True) w0)) = [] \<and>
   length (open_figs (world_of (plotTemperatureCuts Eok (simOf [densProbe, tmpProbe, elecProbe])
                      None None None None (Some True) w0))) = 2 \<and>
   open_figs (world_of (plotMediaDensityCuts Eok (simOf [densProbe, tmpProbe, elecProbe])
                      5 None (18, 6) None w0)) = [] \<and>
   length (saved (world_of (plotMediaDensityCuts Eok (simOf [densProbe, tmpProbe, elecProbe])
                      5 None (18, 6) None w0))) = 1 \<and>
   open_figs (world_of (plotTemperatureCuts Eok (simOf [densProbe, tmpProbe, elecProbe])
                      None None None None None w0)) = [] \<and>
   length (saved (world_of (plotTemperatureCuts Eok (simOf [densProbe, tmpProbe, elecProbe])
                      None None None None None w0))) = 2"
proof -
  let ?S = "simOf [densProbe, tmpProbe, elecProbe]"
  have i: "interactive Eok (Some True)" "\<not> interactive Eok None"
    by (simp_all add: Eok_def)
  have n: "length (filter countsOk (densityJobs ?S)) = 1"
    by (simp add: densityJobs_def densityProbes_def countsOk_def example_defs)
  have m: "length (takeWhile cutsFound (temperatureProbes ?S)) = 2"
    by (simp add: temperatureProbes_def probetypes_eq cutsFound_def numCuts_def mediumOf_def
          example_defs)
  obtain a where a: "plotMediaDensityCuts Eok ?S 5 None (18, 6) (Some True) w0 = Returned a"
    by (simp add: model_defs example_defs)
  obtain b where b: "plotTemperatureCuts Eok ?S None None None None (Some True) w0 = Returned b"
    by (simp add: model_defs example_defs)
  obtain c where c: "plotMediaDensityCuts Eok ?S 5 None (18, 6) None w0 = Returned c"
    by (simp add: model_defs example_defs)
  obtain d where d: "plotTemperatureCuts Eok ?S None None None None None w0 = Returned d"
    by (simp add: model_defs example_defs)
  have w: "saved w0 = []" "open_figs w0 = []"
    by (simp_all add: w0_def)
  show ?thesis
    using interactive_mode_saves_nothing
            [where E = Eok and iflag = "Some True" and simulation = ?S and decades = 5
               and odp = None and figSize = "(18, 6)" and w = w0 and ofn = None and ofp = None
               and tFigSize = None]
          interactive_mode_saves_nothing
            [where E = Eok and iflag = None and simulation = ?S and decades = 5
               and odp = None and figSize = "(18, 6)" and w = w0 and ofn = None and ofp = None
               and tFigSize = None]
          i n m a b c d w
    by simp
qed



text \<open>
  C4. For a combination whose two files load as non-empty frames on non-empty axes, the
  figure has two panels, and their normalizer is logarithmic when the largest value \<open>vmax\<close>
  of the two frames together is positive and linear when it is not.
\<close>

theorem normalizer_choice:
  assumes "densityJobs simulation = done @ (probe, medium, cut') # todo"
    and "forEach (\<lambda>(probe, medium, cut').
           densityCut E simulation decades odp figSize iflag probe medium cut') done w =
           Returned w1"
    and "densityFiles E probe medium cut' tf gf xg yg"
    and "concat (fdata tf) \<noteq> []" and "concat (fdata gf) \<noteq> []"
    and "decades < 309"
    and "coords xg \<noteq> []" and "coords yg \<noteq> []"
    and "interactive E iflag \<or>
         (\<exists>sp. savePath E (outFilePath simulation (densityName probe medium cut'))
                  [''.pdf'', ''.png''] odp None None = Inr sp \<and>
               (\<forall>fig. savefig E sp fig = None))"
  shows "\<exists>fig rest.
           drawnAfter w1
             (world_of (plotMediaDensityCuts E simulation decades odp figSize iflag w)) =
             fig # rest \<and>
           length (panels fig) = 2 \<and>
           (\<forall>p\<in>set (panels fig).
              is_log (p_norm p) =
                (0 < Max (set (concat (fdata tf)) \<union> set (concat (fdata gf)))))"
proof -
  let ?vmax = "Max (set (concat (fdata tf)) \<union> set (concat (fdata gf)))"
  obtain vmin where v: "divPow10 ?vmax decades = Inr vmin"
    using divPow10_below [OF assms(6)] by blast
  have c: "cut' \<noteq> []"
    using density_pass(2) [OF assms(1,2)] by auto
  obtain rest where
    "drawnAfter w1 (world_of (plotMediaDensityCuts E simulation decades odp figSize iflag w)) =
       fst (densityFigure E figSize cut' (clip vmin tf) (clip vmin gf)
              (funit tf) xg yg vmin ?vmax) # rest"
    using density_pass_drawnAfter [OF assms(1-5) v assms(7-9)] by blast
  then show ?thesis
    unfolding densityFigure_drawn [OF assms(7,8) c]
    by (simp add: axesOf_def is_log_colorbarNorm chooseNormalizer_def del: set_concat)
qed

theorem normalizer_choice_witness:
  "(case drawnAfter w0
           (world_of (plotMediaDensityCuts Eok (simOf [densProbe]) 5 None (18, 6) None w0)) of
      [] \<Rightarrow> False
    | fig # rest \<Rightarrow> map (is_log \<circ> p_norm) (panels fig) = [True, True]) \<and>
   (case drawnAfter w0
           (world_of (plotMediaDensityCuts Ezero (simOf [densProbe]) 5 None (18, 6) (Some True)
                        w0)) of
      [] \<Rightarrow> False
    | fig # rest \<Rightarrow> map (is_log \<circ> p_norm) (panels fig) = [False, False])"
proof -
  let ?S = "simOf [densProbe]"
  obtain todo where jobs: "densityJobs ?S = [] @ (densProbe, ''dust'', ''xy'') # todo"
    by (simp add: densityJobs_def densityProbes_def simOf_def densProbe_def)
  have e0: "forEach (\<lambda>(probe, medium, cut').
              densityCut Eok ?S 5 None (18, 6) None probe medium cut') [] w0 = Returned w0"
    and e0z: "forEach (\<lambda>(probe, medium, cut').
              densityCut Ezero ?S 5 None (18, 6) (Some True) probe medium cut') [] w0 =
                Returned w0"
    by simp_all
  have g: "coords grid0 \<noteq> []"
    by (simp add: grid0_def)
  have d: "(5::int) < 309"
    by simp
  \<comment> \<open>a positive maximum, saved to a file\<close>
  have files: "densityFiles Eok densProbe ''dust'' ''xy'' tFrame0 gFrame0 grid0 grid0"
    by (simp add: densityFiles_def example_defs)
  have ne: "concat (fdata tFrame0) \<noteq> []" "concat (fdata gFrame0) \<noteq> []"
    by (simp_all add: tFrame0_def gFrame0_def)
  have mode: "interactive Eok None \<or>
         (\<exists>sp. savePath Eok (outFilePath ?S (densityName densProbe ''dust'' ''xy''))
                  [''.pdf'', ''.png''] None None None = Inr sp \<and>
               (\<forall>fig. savefig Eok sp fig = None))"
    by (simp add: Eok_def)
  have v: "Max (set (concat (fdata tFrame0)) \<union> set (concat (fdata gFrame0))) = 1000"
    by (simp add: tFrame0_def gFrame0_def)
  from normalizer_choice [OF jobs e0 files ne d g g mode]
  obtain fig rest where
    a: "drawnAfter w0 (world_of (plotMediaDensityCuts Eok ?S 5 None (18, 6) None w0)) = fig # rest"
    and b: "length (panels fig) = 2" and c: "\<forall>p\<in>set (panels fig). is_log (p_norm p) = True"
    unfolding v by auto
  have p: "map (is_log \<circ> p_norm) (panels fig) = [True, True]"
    using b c by (intro two_panels) auto
  \<comment> \<open>a maximum of zero, left open in interactive mode\<close>
  have files0: "densityFiles Ezero densProbe ''dust'' ''xy'' zeroFrame zeroFrame grid0 grid0"
    by (simp add: densityFiles_def example_defs)
  have ne0: "concat (fdata zeroFrame) \<noteq> []"
    by (simp add: zeroFrame_def)
  have mode0: "interactive Ezero (Some True) \<or>
         (\<exists>sp. savePath Ezero (outFilePath ?S (densityName densProbe ''dust'' ''xy''))
                  [''.pdf'', ''.png''] None None None = Inr sp \<and>
               (\<forall>fig. savefig Ezero sp fig = None))"
    by (simp add: Ezero_def Eok_def)
  have v0: "Max (set (concat (fdata zeroFrame)) \<union> set (concat (fdata zeroFrame))) = 0"
    by (simp add: zeroFrame_def)
  from normalizer_choice [OF jobs e0z files0 ne0 ne0 d g g mode0]
  obtain fig0 rest0 where
    a0: "drawnAfter w0 (world_of (plotMediaDensityCuts Ezero ?S 5 None (18, 6) (Some True) w0)) =
           fig0 # rest0"
    and b0: "length (panels fig0) = 2"
    and c0: "\<forall>p\<in>set (panels fig0). is_log (p_norm p) = False"
    unfolding v0 by auto
  have p0: "map (is_log \<circ> p_norm) (panels fig0) = [False, False]"
    using b0 c0 by (intro two_panels) auto
  show ?thesis
    using a p a0 p0 by simp
qed

end
